theory Spec2Isabelle
  imports Complex_Main "HOL-Library.Sublist"
begin

section \<open>SearchController: worker health tracking (src/scripts/settings.js)\<close>

text \<open>
  The embedding follows class \<open>SearchController\<close>. JavaScript numbers are abstracted:
  the two counters are unbounded integers, times are milliseconds as natural numbers, and
  the smoothed response time is an exact real (IEEE rounding is not modelled).
\<close>

type_synonym url = string

text \<open>The object literal stored in \<open>this.workerHealth\<close> for one worker.\<close>

record worker_health =
  healthy :: bool
  lastCheck :: nat
  responseTime :: real
  errorCount :: int
  successCount :: int

text \<open>
  \<open>this.workerHealth\<close> (a Map from worker URL to its record) together with the pending
  auto-recover timers that \<open>updateWorkerStatus\<close> hands to \<open>setTimeout\<close>: each timer is
  the instant at which it is due and the worker URL its closure captured.
\<close>

record controller =
  workerHealth :: "url \<rightharpoonup> worker_health"
  timers :: "(nat \<times> url) list"

text \<open>\<open>this.workers\<close>: the primary worker and the ordered fallbacks.\<close>

record workers =
  primary :: url
  fallbacks :: "url list"

definition allWorkers :: "workers \<Rightarrow> url list" where
  \<comment> \<open>\<open>[this.workers.primary, ...this.workers.fallbacks]\<close>\<close>
  "allWorkers w = primary w # fallbacks w"

definition defaultWorkers :: workers where
  "defaultWorkers =
     \<lparr>primary = ''https://proxy.yoohoo.workers.dev'',
      fallbacks = [''https://proxy1.yoohoo.workers.dev'',
                   ''https://proxy2.yoohoo.workers.dev'',
                   ''https://proxy3.yoohoo.workers.dev'',
                   ''https://proxy4.yoohoo.workers.dev'',
                   ''https://proxy5.yoohoo.workers.dev'']\<rparr>"

definition initialHealth :: worker_health where
  \<comment> \<open>the literal of \<open>initializeWorkerHealth\<close>\<close>
  "initialHealth =
     \<lparr>healthy = True, lastCheck = 0, responseTime = 0, errorCount = 0, successCount = 0\<rparr>"

definition initializeWorkerHealth :: "workers \<Rightarrow> controller \<Rightarrow> controller" where
  "initializeWorkerHealth w c =
     fold (\<lambda>worker c'. c'\<lparr>workerHealth := (workerHealth c')(worker \<mapsto> initialHealth)\<rparr>)
       (allWorkers w) c"

definition newController :: "workers \<Rightarrow> controller" where
  \<comment> \<open>the constructor: \<open>new Map()\<close>, then \<open>initializeWorkerHealth()\<close>; no timer is pending\<close>
  "newController w = initializeWorkerHealth w \<lparr>workerHealth = Map.empty, timers = []\<rparr>"

definition fallbackHealth :: "nat \<Rightarrow> worker_health" where
  \<comment> \<open>the literal on the right of \<open>||\<close> in \<open>updateWorkerStatus\<close>\<close>
  "fallbackHealth now =
     \<lparr>healthy = True, lastCheck = now, responseTime = 0, errorCount = 0, successCount = 0\<rparr>"

definition recoveryDelay :: nat where
  \<comment> \<open>\<open>5 * 60 * 1000\<close>\<close>
  "recoveryDelay = 5 * 60 * 1000"

definition onSuccess :: "real \<Rightarrow> worker_health \<Rightarrow> worker_health" where
  \<comment> \<open>the \<open>if (success)\<close> branch\<close>
  "onSuccess rt health =
     (let h = health\<lparr>successCount := successCount health + 1,
                      errorCount := max 0 (errorCount health - 1),
                      responseTime := responseTime health * 0.7 + rt * 0.3\<rparr>
      in if successCount h \<ge> 3 then h\<lparr>healthy := True\<rparr> else h)"

definition onFailure :: "worker_health \<Rightarrow> worker_health" where
  \<comment> \<open>the \<open>else\<close> branch, without the \<open>setTimeout\<close>\<close>
  "onFailure health =
     (let h = health\<lparr>errorCount := errorCount health + 1,
                      successCount := max 0 (successCount health - 1)\<rparr>
      in if errorCount h \<ge> 3 then h\<lparr>healthy := False\<rparr> else h)"

definition updateWorkerStatus ::
  "nat \<Rightarrow> url \<Rightarrow> bool \<Rightarrow> real \<Rightarrow> controller \<Rightarrow> controller" where
  \<comment> \<open>\<open>now\<close> is what \<open>Date.now()\<close> returns during the call; the failure branch schedules
      its timer on every call, whatever the counters are\<close>
  "updateWorkerStatus now workerUrl success rt c =
     (let health0 = (case workerHealth c workerUrl of
                       Some h \<Rightarrow> h
                     | None \<Rightarrow> fallbackHealth now);
          health1 = health0\<lparr>lastCheck := now\<rparr>;
          health2 = (if success then onSuccess rt health1 else onFailure health1)
      in c\<lparr>workerHealth := (workerHealth c)(workerUrl \<mapsto> health2),
           timers := (if success then timers c
                      else timers c @ [(now + recoveryDelay, workerUrl)])\<rparr>)"

definition autoRecover :: "url \<Rightarrow> controller \<Rightarrow> controller" where
  \<comment> \<open>the body of the timer callback\<close>
  "autoRecover workerUrl c =
     (case workerHealth c workerUrl of
        None \<Rightarrow> c
      | Some currentHealth \<Rightarrow>
          if \<not> healthy currentHealth
          then c\<lparr>workerHealth :=
                   (workerHealth c)(workerUrl \<mapsto> currentHealth\<lparr>healthy := True, errorCount := 0\<rparr>)\<rparr>
          else c)"

definition isDue :: "nat \<Rightarrow> nat \<times> url \<Rightarrow> bool" where
  "isDue now t = (fst t \<le> now)"

definition runTimers :: "nat \<Rightarrow> controller \<Rightarrow> controller" where
  \<comment> \<open>the event loop at instant \<open>now\<close>: every due timer runs once, in the order it was
      scheduled, and is then gone\<close>
  "runTimers now c =
     (fold (\<lambda>t c'. autoRecover (snd t) c') (filter (isDue now) (timers c)) c)
       \<lparr>timers := filter (\<lambda>t. \<not> isDue now t) (timers c)\<rparr>"

text \<open>
  What can happen to the tracker: an outcome is recorded at some instant, or the event
  loop reaches an instant and runs the timers that are due.
\<close>

datatype tracker_event = Outcome nat url bool real | TimersRun nat

fun trackerStep :: "tracker_event \<Rightarrow> controller \<Rightarrow> controller" where
  "trackerStep (Outcome now workerUrl success rt) c = updateWorkerStatus now workerUrl success rt c"
| "trackerStep (TimersRun now) c = runTimers now c"

definition trackerRun :: "tracker_event list \<Rightarrow> controller \<Rightarrow> controller" where
  "trackerRun evs c = fold trackerStep evs c"

definition healthOf :: "controller \<Rightarrow> url \<Rightarrow> worker_health" where
  \<comment> \<open>the record \<open>updateWorkerStatus\<close> starts from, at instant 0 for an unknown URL\<close>
  "healthOf c workerUrl =
     (case workerHealth c workerUrl of Some h \<Rightarrow> h | None \<Rightarrow> fallbackHealth 0)"

section \<open>SearchController: fetching with fallback\<close>

text \<open>\<open>this.config\<close>, the two options the fetch path reads.\<close>

record config =
  maxRetries :: int
  requestTimeout :: nat

definition defaultConfig :: config where
  "defaultConfig = \<lparr>maxRetries = 3, requestTimeout = 15000\<rparr>"

text \<open>A value produced by \<open>response.json()\<close>.\<close>

datatype json =
    JNull
  | JBool bool
  | JNum real
  | JStr string
  | JArr "json list"
  | JObj "(string \<times> json) list"

text \<open>
  What a rejected promise carries: fetch's \<open>AbortError\<close> and \<open>TypeError\<close>, the
  \<open>SyntaxError\<close> of \<open>response.json()\<close>, and the three \<open>new Error(...)\<close> of the source
  (\<open>HTTP status\<close>, \<open>Empty response from worker\<close>, \<open>All workers failed\<close>).
\<close>

datatype js_error =
    AbortError
  | TypeError
  | HttpError nat
  | SyntaxError
  | EmptyResponse
  | AllWorkersFailed

text \<open>
  The environment. A fetch either rejects or resolves with a status and a body
  (\<open>None\<close>: the body is not JSON); it settles after \<open>settlesAfter\<close> milliseconds and
  reading the body takes \<open>bodyAfter\<close> more. The network answers the \<open>n\<close>-th fetch of a
  request by its URL. The caller (\<open>performSearch\<close>) may call \<open>abort()\<close> on
  \<open>this.abortController\<close> while a fetch or a delay is pending.
\<close>

datatype net_reply = Rejects | Responds nat "json option"

record exchange =
  settlesAfter :: nat
  reply :: net_reply
  bodyAfter :: nat

record environment =
  network :: "nat \<Rightarrow> string \<Rightarrow> exchange"
  abortDuringFetch :: "nat \<Rightarrow> bool"
  abortDuringDelay :: "int \<Rightarrow> bool"

text \<open>What an observer of one logical request sees, in order.\<close>

datatype obs =
    Attempted url "js_error + json"
  | Recorded url bool
  | Waited int

text \<open>
  The state one call of \<open>fetchWithFallback\<close> runs in: the controller's health map and
  timers, the clock, how many fetches the request has issued, whether the caller's
  \<open>AbortController\<close> has been aborted, and the trace so far.
\<close>

record request_state =
  ctl :: controller
  clock :: nat
  fetches :: nat
  callerAborted :: bool
  trace :: "obs list"

definition startRequest :: "controller \<Rightarrow> nat \<Rightarrow> request_state" where
  \<comment> \<open>\<open>performSearch\<close> has just made a fresh \<open>AbortController\<close>\<close>
  "startRequest c now =
     \<lparr>ctl = c, clock = now, fetches = 0, callerAborted = False, trace = []\<rparr>"

fun falsy :: "json \<Rightarrow> bool" where
  \<comment> \<open>\<open>!data\<close>\<close>
  "falsy JNull = True"
| "falsy (JBool b) = (\<not> b)"
| "falsy (JNum x) = (x = 0)"
| "falsy (JStr s) = (s = [])"
| "falsy (JArr xs) = False"
| "falsy (JObj kvs) = False"

fun emptyObject :: "json \<Rightarrow> bool" where
  \<comment> \<open>\<open>typeof data === 'object' && Object.keys(data).length === 0\<close>, reached only
      for a truthy value\<close>
  "emptyObject (JArr xs) = (xs = [])"
| "emptyObject (JObj kvs) = (kvs = [])"
| "emptyObject d = False"

definition responseOk :: "nat \<Rightarrow> bool" where
  \<comment> \<open>\<open>response.ok\<close>\<close>
  "responseOk st = (200 \<le> st \<and> st \<le> 299)"

definition requestUrl :: "url \<Rightarrow> string \<Rightarrow> string \<Rightarrow> string" where
  "requestUrl workerUrl endpoint params = workerUrl @ endpoint @ ''?'' @ params"

definition fetchFromWorker ::
  "config \<Rightarrow> environment \<Rightarrow> nat \<Rightarrow> url \<Rightarrow> string \<Rightarrow> string \<Rightarrow> nat \<times> (js_error + json)" where
  \<comment> \<open>the time the call takes and how its promise settles; the local controller aborts
      the fetch when the timeout comes first, and the timer is cleared once the fetch has
      settled\<close>
  "fetchFromWorker cfg env n workerUrl endpoint params =
     (let x = network env n (requestUrl workerUrl endpoint params)
      in if requestTimeout cfg \<le> settlesAfter x then (requestTimeout cfg, Inl AbortError)
         else (case reply x of
                 Rejects \<Rightarrow> (settlesAfter x, Inl TypeError)
               | Responds st body \<Rightarrow>
                   (if \<not> responseOk st then (settlesAfter x, Inl (HttpError st))
                    else (case body of
                            None \<Rightarrow> (settlesAfter x + bodyAfter x, Inl SyntaxError)
                          | Some data \<Rightarrow>
                              (if falsy data \<or> emptyObject data
                               then (settlesAfter x + bodyAfter x, Inl EmptyResponse)
                               else (settlesAfter x + bodyAfter x, Inr data))))))"

definition elapse :: "nat \<Rightarrow> request_state \<Rightarrow> request_state" where
  \<comment> \<open>an \<open>await\<close> that takes \<open>d\<close> milliseconds: the timers that come due meanwhile run\<close>
  "elapse d s = s\<lparr>clock := clock s + d, ctl := runTimers (clock s + d) (ctl s)\<rparr>"

definition noteAbort :: "bool \<Rightarrow> request_state \<Rightarrow> request_state" where
  \<comment> \<open>the caller's signal is passed to no fetch and to no delay: aborting it only
      changes the controller object\<close>
  "noteAbort b s = s\<lparr>callerAborted := (callerAborted s \<or> b)\<rparr>"

definition recordOutcome :: "url \<Rightarrow> bool \<Rightarrow> real \<Rightarrow> request_state \<Rightarrow> request_state" where
  \<comment> \<open>a call \<open>this.updateWorkerStatus(worker, success, responseTime)\<close>\<close>
  "recordOutcome worker success rt s =
     s\<lparr>ctl := updateWorkerStatus (clock s) worker success rt (ctl s),
       trace := trace s @ [Recorded worker success]\<rparr>"

definition delay :: "int \<Rightarrow> request_state \<Rightarrow> request_state" where
  \<comment> \<open>\<open>await this.delay(ms)\<close>\<close>
  "delay ms s = elapse (nat ms) (s\<lparr>trace := trace s @ [Waited ms]\<rparr>)"

fun tryWorkers ::
  "config \<Rightarrow> environment \<Rightarrow> string \<Rightarrow> string \<Rightarrow> url list \<Rightarrow> request_state
     \<Rightarrow> json option \<times> request_state" where
  \<comment> \<open>the loop \<open>for (const worker of workers)\<close>; \<open>None\<close>: the loop ran to its end\<close>
  "tryWorkers cfg env endpoint params [] s = (None, s)"
| "tryWorkers cfg env endpoint params (worker # rest) s =
     (let out = fetchFromWorker cfg env (fetches s) worker endpoint params;
          s1 = elapse (fst out)
                 (noteAbort (abortDuringFetch env (fetches s))
                    (s\<lparr>fetches := fetches s + 1,
                       trace := trace s @ [Attempted worker (snd out)]\<rparr>))
      in case snd out of
           Inr response \<Rightarrow> (Some response, recordOutcome worker True (real (fst out)) s1)
         | Inl error \<Rightarrow>
             tryWorkers cfg env endpoint params rest (recordOutcome worker False 0 s1))"

function fetchWithFallback ::
  "config \<Rightarrow> workers \<Rightarrow> environment \<Rightarrow> string \<Rightarrow> string \<Rightarrow> int \<Rightarrow> request_state
     \<Rightarrow> (js_error + json) \<times> request_state" where
  "fetchWithFallback cfg w env endpoint params retries s =
     (let r = tryWorkers cfg env endpoint params (allWorkers w) s
      in case fst r of
           Some response \<Rightarrow> (Inr response, snd r)
         | None \<Rightarrow>
             if retries < maxRetries cfg
             then fetchWithFallback cfg w env endpoint params (retries + 1)
                    (delay (1000 * (retries + 1))
                       (noteAbort (abortDuringDelay env retries) (snd r)))
             else (Inl AllWorkersFailed, snd r))"
  by pat_completeness auto
termination
  by (relation "measure (\<lambda>(cfg, w, env, endpoint, params, retries, s).
                           nat (maxRetries cfg - retries))") auto

text \<open>Reading a trace.\<close>

fun attempts :: "obs list \<Rightarrow> url list" where
  "attempts [] = []"
| "attempts (Attempted u r # xs) = u # attempts xs"
| "attempts (Recorded u b # xs) = attempts xs"
| "attempts (Waited d # xs) = attempts xs"

fun waits :: "obs list \<Rightarrow> int list" where
  "waits [] = []"
| "waits (Waited d # xs) = d # waits xs"
| "waits (Attempted u r # xs) = waits xs"
| "waits (Recorded u b # xs) = waits xs"

fun sweeps :: "obs list \<Rightarrow> url list list" where
  \<comment> \<open>the attempted workers, one list for each sweep: a wait separates two sweeps\<close>
  "sweeps [] = [[]]"
| "sweeps (Waited d # xs) = [] # sweeps xs"
| "sweeps (Attempted u r # xs) = (u # hd (sweeps xs)) # tl (sweeps xs)"
| "sweeps (Recorded u b # xs) = sweeps xs"

fun absorbed :: "obs list \<Rightarrow> bool" where
  \<comment> \<open>every attempt is followed at once by the record of its outcome for the same worker,
      a failure exactly when the attempt was rejected; nothing follows a success\<close>
  "absorbed [] = True"
| "absorbed (Waited d # xs) = absorbed xs"
| "absorbed (Attempted u r # Recorded v b # xs) =
     (v = u \<and> b = (\<not> isl r) \<and> (b \<longrightarrow> xs = []) \<and> absorbed xs)"
| "absorbed (Attempted u r # xs) = False"
| "absorbed (Recorded v b # xs) = False"

text \<open>
  For the proofs: the trace one run of the loop appends and the value it ends with, as
  functions of the number of the first fetch.
\<close>

fun sweepTrace ::
  "config \<Rightarrow> environment \<Rightarrow> string \<Rightarrow> string \<Rightarrow> url list \<Rightarrow> nat \<Rightarrow> obs list" where
  "sweepTrace cfg env endpoint params [] n = []"
| "sweepTrace cfg env endpoint params (worker # rest) n =
     (let r = snd (fetchFromWorker cfg env n worker endpoint params)
      in Attempted worker r # Recorded worker (\<not> isl r) #
           (if isl r then sweepTrace cfg env endpoint params rest (Suc n) else []))"

fun sweepAnswer ::
  "config \<Rightarrow> environment \<Rightarrow> string \<Rightarrow> string \<Rightarrow> url list \<Rightarrow> nat \<Rightarrow> json option" where
  "sweepAnswer cfg env endpoint params [] n = None"
| "sweepAnswer cfg env endpoint params (worker # rest) n =
     (case snd (fetchFromWorker cfg env n worker endpoint params) of
        Inr response \<Rightarrow> Some response
      | Inl error \<Rightarrow> sweepAnswer cfg env endpoint params rest (Suc n))"

text \<open>
  Three more readings of a trace. \<open>genuine\<close>: the result noted for the attempt with
  number \<open>n\<close>, \<open>n + 1\<close>, ... is the one \<open>fetchFromWorker\<close> gave for that fetch.
  \<open>outcomeOf\<close>: the payload of the first successful attempt, or the aggregate error when
  there is none. \<open>fetchTimes\<close>: the time the fetches number \<open>n\<close>, \<open>n + 1\<close>, ... to the
  given workers take together.
\<close>

fun genuine :: "config \<Rightarrow> environment \<Rightarrow> string \<Rightarrow> string \<Rightarrow> nat \<Rightarrow> obs list \<Rightarrow> bool" where
  "genuine cfg env endpoint params n [] = True"
| "genuine cfg env endpoint params n (Attempted u r # xs) =
     (r = snd (fetchFromWorker cfg env n u endpoint params)
      \<and> genuine cfg env endpoint params (Suc n) xs)"
| "genuine cfg env endpoint params n (Recorded u b # xs) = genuine cfg env endpoint params n xs"
| "genuine cfg env endpoint params n (Waited d # xs) = genuine cfg env endpoint params n xs"

fun outcomeOf :: "obs list \<Rightarrow> js_error + json" where
  "outcomeOf [] = Inl AllWorkersFailed"
| "outcomeOf (Attempted u (Inr d) # xs) = Inr d"
| "outcomeOf (x # xs) = outcomeOf xs"

fun fetchTimes :: "config \<Rightarrow> environment \<Rightarrow> string \<Rightarrow> string \<Rightarrow> nat \<Rightarrow> url list \<Rightarrow> nat" where
  "fetchTimes cfg env endpoint params n [] = 0"
| "fetchTimes cfg env endpoint params n (u # us) =
     fst (fetchFromWorker cfg env n u endpoint params)
       + fetchTimes cfg env endpoint params (Suc n) us"

text \<open>
  Replaying a trace on the tracker alone: from a health state, a clock and a fetch
  number, an attempt lets the time of its fetch pass (the due timers run), a record is
  the call \<open>updateWorkerStatus(worker, success, responseTime)\<close> at the current instant,
  with the time the last fetch took for a success and the default 0 for a failure, and a
  wait lets its time pass.
\<close>

record replayed =
  atCtl :: controller
  atClock :: nat
  atFetch :: nat
  lastTook :: nat

fun replay :: "config \<Rightarrow> environment \<Rightarrow> string \<Rightarrow> string \<Rightarrow> obs list \<Rightarrow> replayed \<Rightarrow> replayed" where
  "replay cfg env endpoint params [] v = v"
| "replay cfg env endpoint params (Attempted u r # xs) v =
     (let d = fst (fetchFromWorker cfg env (atFetch v) u endpoint params)
      in replay cfg env endpoint params xs
           \<lparr>atCtl = runTimers (atClock v + d) (atCtl v), atClock = atClock v + d,
            atFetch = Suc (atFetch v), lastTook = d\<rparr>)"
| "replay cfg env endpoint params (Recorded u b # xs) v =
     replay cfg env endpoint params xs
       (v\<lparr>atCtl := updateWorkerStatus (atClock v) u b
                      (if b then real (lastTook v) else 0) (atCtl v)\<rparr>)"
| "replay cfg env endpoint params (Waited d # xs) v =
     replay cfg env endpoint params xs
       (v\<lparr>atCtl := runTimers (atClock v + nat d) (atCtl v), atClock := atClock v + nat d\<rparr>)"

definition viewOf :: "request_state \<Rightarrow> nat \<Rightarrow> replayed" where
  "viewOf s e = \<lparr>atCtl = ctl s, atClock = clock s, atFetch = fetches s, lastTook = e\<rparr>"

text \<open>Two runs that differ at most in the health state, or at most in the caller's abort flag.\<close>

definition sameButHealth :: "request_state \<Rightarrow> request_state \<Rightarrow> bool" where
  "sameButHealth s t =
     (clock s = clock t \<and> fetches s = fetches t \<and> callerAborted s = callerAborted t
        \<and> trace s = trace t)"

definition sameButAbort :: "request_state \<Rightarrow> request_state \<Rightarrow> bool" where
  "sameButAbort s t =
     (ctl s = ctl t \<and> clock s = clock t \<and> fetches s = fetches t \<and> trace s = trace t)"

text \<open>Concrete environments for the examples: a network on which every fetch is rejected.\<close>

definition deadNetwork :: environment where
  "deadNetwork =
     \<lparr>network = (\<lambda>n u. \<lparr>settlesAfter = 10, reply = Rejects, bodyAfter = 0\<rparr>),
      abortDuringFetch = (\<lambda>n. False),
      abortDuringDelay = (\<lambda>r. False)\<rparr>"

text \<open>
  A payload, a network on which only the third worker answers the search for \<open>cats\<close>,
  the same network with a caller that aborts during the first fetch and during every
  delay, and a network whose first five fetches fail in the five possible ways.
\<close>

definition okPayload :: json where
  "okPayload = JObj [(''results'', JArr [JStr ''ok''])]"

definition thirdAnswers :: environment where
  "thirdAnswers =
     \<lparr>network = (\<lambda>n u.
        if u = requestUrl ''https://proxy2.yoohoo.workers.dev'' ''/search'' ''q=cats''
        then \<lparr>settlesAfter = 120, reply = Responds 200 (Some okPayload), bodyAfter = 5\<rparr>
        else \<lparr>settlesAfter = 10, reply = Rejects, bodyAfter = 0\<rparr>),
      abortDuringFetch = (\<lambda>n. False),
      abortDuringDelay = (\<lambda>r. False)\<rparr>"

definition abortingCaller :: environment where
  "abortingCaller = thirdAnswers\<lparr>abortDuringFetch := (\<lambda>n. n = 0), abortDuringDelay := (\<lambda>r. True)\<rparr>"

definition flakyNetwork :: environment where
  "flakyNetwork =
     \<lparr>network = (\<lambda>n u.
        if n = 0 then \<lparr>settlesAfter = 10, reply = Rejects, bodyAfter = 0\<rparr>
        else if n = 1 then \<lparr>settlesAfter = 20000, reply = Responds 200 (Some okPayload), bodyAfter = 0\<rparr>
        else if n = 2 then \<lparr>settlesAfter = 30, reply = Responds 503 None, bodyAfter = 0\<rparr>
        else if n = 3 then \<lparr>settlesAfter = 30, reply = Responds 200 None, bodyAfter = 1\<rparr>
        else if n = 4 then \<lparr>settlesAfter = 30, reply = Responds 200 (Some (JObj [])), bodyAfter = 1\<rparr>
        else \<lparr>settlesAfter = 30, reply = Responds 200 (Some okPayload), bodyAfter = 1\<rparr>),
      abortDuringFetch = (\<lambda>n. False),
      abortDuringDelay = (\<lambda>r. False)\<rparr>"

text \<open>Two notions the statements below use.\<close>

definition timerDue :: "nat \<Rightarrow> controller \<Rightarrow> url \<Rightarrow> bool" where
  \<comment> \<open>at instant \<open>now\<close> some pending auto-recover timer of this worker is due\<close>
  "timerDue now c workerUrl = (workerUrl \<in> set (map snd (filter (isDue now) (timers c))))"

definition creditsNonneg :: "controller \<Rightarrow> bool" where
  "creditsNonneg c =
     (\<forall>u. 0 \<le> errorCount (healthOf c u) \<and> 0 \<le> successCount (healthOf c u))"

section \<open>Properties of the health tracker\<close>

lemma healthOf_update:
  "healthOf (updateWorkerStatus now u success rt c) u =
     (if success then onSuccess rt else onFailure) ((healthOf c u)\<lparr>lastCheck := now\<rparr>)"
  by (simp add: healthOf_def updateWorkerStatus_def Let_def fallbackHealth_def split: option.splits)

lemma healthOf_update_other:
  "v \<noteq> u \<Longrightarrow> healthOf (updateWorkerStatus now u success rt c) v = healthOf c v"
  by (simp add: healthOf_def updateWorkerStatus_def Let_def)

lemma healthOf_autoRecover:
  "healthOf (autoRecover v c) u =
     (if v = u \<and> \<not> healthy (healthOf c u)
      then (healthOf c u)\<lparr>healthy := True, errorCount := 0\<rparr> else healthOf c u)"
  by (auto simp: healthOf_def autoRecover_def fallbackHealth_def split: option.splits)

lemma healthOf_fold_autoRecover:
  "healthOf (fold (\<lambda>t c'. autoRecover (snd t) c') ts c) u =
     (if u \<in> set (map snd ts) \<and> \<not> healthy (healthOf c u)
      then (healthOf c u)\<lparr>healthy := True, errorCount := 0\<rparr> else healthOf c u)"
proof (induction ts arbitrary: c)
  case Nil
  show ?case by simp
next
  case (Cons t ts)
  show ?case
    by (auto simp: Cons.IH healthOf_autoRecover)
qed

lemma healthOf_timers_irrelevant:
  "healthOf (c\<lparr>timers := ts\<rparr>) u = healthOf c u"
  by (simp add: healthOf_def)

lemma healthOf_runTimers:
  "healthOf (runTimers now c) u =
     (if timerDue now c u \<and> \<not> healthy (healthOf c u)
      then (healthOf c u)\<lparr>healthy := True, errorCount := 0\<rparr> else healthOf c u)"
  unfolding runTimers_def timerDue_def healthOf_timers_irrelevant
  by (rule healthOf_fold_autoRecover)

lemma workerHealth_initialize:
  "workerHealth (fold (\<lambda>worker c'. c'\<lparr>workerHealth := (workerHealth c')(worker \<mapsto> initialHealth)\<rparr>) ws c) u
     = (if u \<in> set ws then Some initialHealth else workerHealth c u)"
  by (induction ws arbitrary: c) auto

lemma workerHealth_newController:
  "workerHealth (newController w) u = (if u \<in> set (allWorkers w) then Some initialHealth else None)"
  by (simp add: newController_def initializeWorkerHealth_def workerHealth_initialize)

lemma healthOf_newController: "healthOf (newController w) u = initialHealth"
  by (simp add: healthOf_def workerHealth_newController fallbackHealth_def initialHealth_def)

lemma creditsNonneg_new: "creditsNonneg (newController w)"
  by (simp add: creditsNonneg_def healthOf_newController initialHealth_def)

lemma creditsNonneg_update:
  "creditsNonneg c \<Longrightarrow> creditsNonneg (updateWorkerStatus now u success rt c)"
  unfolding creditsNonneg_def
proof (intro allI)
  fix v
  assume a: "\<forall>u. 0 \<le> errorCount (healthOf c u) \<and> 0 \<le> successCount (healthOf c u)"
  then have "0 \<le> errorCount (healthOf c v)" "0 \<le> successCount (healthOf c v)" 
    "0 \<le> errorCount (healthOf c u)" "0 \<le> successCount (healthOf c u)" by auto
  then show "0 \<le> errorCount (healthOf (updateWorkerStatus now u success rt c) v) \<and>
         0 \<le> successCount (healthOf (updateWorkerStatus now u success rt c) v)"
    by (cases "v = u") (auto simp: healthOf_update healthOf_update_other onSuccess_def onFailure_def Let_def)
qed

lemma creditsNonneg_runTimers:
  "creditsNonneg c \<Longrightarrow> creditsNonneg (runTimers now c)"
  by (simp add: creditsNonneg_def healthOf_runTimers)

lemma creditsNonneg_step: "creditsNonneg c \<Longrightarrow> creditsNonneg (trackerStep e c)"
  by (cases e) (simp_all add: creditsNonneg_update creditsNonneg_runTimers)

lemma creditsNonneg_run: "creditsNonneg c \<Longrightarrow> creditsNonneg (trackerRun evs c)"
  unfolding trackerRun_def
  by (induction evs arbitrary: c) (simp_all add: creditsNonneg_step)

text \<open>
  Claim C8. After every sequence of recorded outcomes and timer runs, starting from the
  constructor's health map, the success credit and the failure credit of every worker are
  at least 0; recording a success then adds exactly 1 to the success credit and takes 1
  from the failure credit, floored at 0, and recording a failure adds exactly 1 to the
  failure credit and takes 1 from the success credit, floored at 0.
\<close>

theorem credits_floor_and_step:
  "0 \<le> errorCount (healthOf (trackerRun evs (newController w)) u)
   \<and> 0 \<le> successCount (healthOf (trackerRun evs (newController w)) u)
   \<and> successCount (healthOf (updateWorkerStatus now u True rt (trackerRun evs (newController w))) u)
       = successCount (healthOf (trackerRun evs (newController w)) u) + 1
   \<and> errorCount (healthOf (updateWorkerStatus now u True rt (trackerRun evs (newController w))) u)
       = max 0 (errorCount (healthOf (trackerRun evs (newController w)) u) - 1)
   \<and> errorCount (healthOf (updateWorkerStatus now u False rt (trackerRun evs (newController w))) u)
       = errorCount (healthOf (trackerRun evs (newController w)) u) + 1
   \<and> successCount (healthOf (updateWorkerStatus now u False rt (trackerRun evs (newController w))) u)
       = max 0 (successCount (healthOf (trackerRun evs (newController w)) u) - 1)"
proof -
  have "creditsNonneg (trackerRun evs (newController w))"
    by (rule creditsNonneg_run [OF creditsNonneg_new])
  then have "0 \<le> errorCount (healthOf (trackerRun evs (newController w)) u)"
    and "0 \<le> successCount (healthOf (trackerRun evs (newController w)) u)"
    by (simp_all add: creditsNonneg_def)
  then show ?thesis
    by (simp add: healthOf_update onSuccess_def onFailure_def Let_def)
qed

text \<open>
  Claim C2, as the code has it. In every state of the tracker, recording an outcome for a
  worker turns its healthy flag from true to false exactly when the outcome is a failure
  and the failure credit is then at least 3 (a healthy worker can already hold a credit
  of 3 or more), and from false to true exactly when the outcome is a success and the
  success credit is then at least 3; other workers are untouched. Running the timers
  never turns the flag to false, and turns it from false to true exactly when an
  auto-recover timer of that worker is due; that recovery sets the failure credit to 0
  and changes nothing else of the record, so the success credit stays. Every recorded
  failure, not only the one that marks the worker unhealthy, schedules such a timer, due
  5 minutes (300000 ms) after it; a success schedules none.
\<close>

theorem health_transitions:
  "(healthy (healthOf c u) \<and> \<not> healthy (healthOf (updateWorkerStatus now u success rt c) u))
      = (healthy (healthOf c u) \<and> \<not> success
           \<and> 3 \<le> errorCount (healthOf (updateWorkerStatus now u success rt c) u))
   \<and> (\<not> success \<and> 3 \<le> errorCount (healthOf (updateWorkerStatus now u success rt c) u)
         \<longrightarrow> \<not> healthy (healthOf (updateWorkerStatus now u success rt c) u))
   \<and> (\<not> healthy (healthOf c u) \<and> healthy (healthOf (updateWorkerStatus now u success rt c) u))
      = (\<not> healthy (healthOf c u) \<and> success
           \<and> 3 \<le> successCount (healthOf (updateWorkerStatus now u success rt c) u))
   \<and> (success \<and> 3 \<le> successCount (healthOf (updateWorkerStatus now u success rt c) u)
         \<longrightarrow> healthy (healthOf (updateWorkerStatus now u success rt c) u))
   \<and> (v \<noteq> u \<longrightarrow> healthOf (updateWorkerStatus now u success rt c) v = healthOf c v)
   \<and> (healthy (healthOf c u) \<longrightarrow> healthOf (runTimers t c) u = healthOf c u)
   \<and> (\<not> healthy (healthOf c u) \<and> healthy (healthOf (runTimers t c) u))
      = (\<not> healthy (healthOf c u) \<and> timerDue t c u)
   \<and> (\<not> healthy (healthOf c u) \<and> timerDue t c u
         \<longrightarrow> healthOf (runTimers t c) u = (healthOf c u)\<lparr>healthy := True, errorCount := 0\<rparr>)
   \<and> timerDue t (updateWorkerStatus now u False rt c) u
      = (timerDue t c u \<or> now + 5 * 60 * 1000 \<le> t)
   \<and> timerDue t (updateWorkerStatus now u True rt c) u = timerDue t c u"
proof -
  have upd: "(healthy (healthOf c u) \<and> \<not> healthy (healthOf (updateWorkerStatus now u success rt c) u))
      = (healthy (healthOf c u) \<and> \<not> success
           \<and> 3 \<le> errorCount (healthOf (updateWorkerStatus now u success rt c) u))"
    "\<not> success \<and> 3 \<le> errorCount (healthOf (updateWorkerStatus now u success rt c) u)
         \<longrightarrow> \<not> healthy (healthOf (updateWorkerStatus now u success rt c) u)"
    "(\<not> healthy (healthOf c u) \<and> healthy (healthOf (updateWorkerStatus now u success rt c) u))
      = (\<not> healthy (healthOf c u) \<and> success
           \<and> 3 \<le> successCount (healthOf (updateWorkerStatus now u success rt c) u))"
    "success \<and> 3 \<le> successCount (healthOf (updateWorkerStatus now u success rt c) u)
         \<longrightarrow> healthy (healthOf (updateWorkerStatus now u success rt c) u)"
    by (auto simp: healthOf_update onSuccess_def onFailure_def Let_def)
  have other: "v \<noteq> u \<longrightarrow> healthOf (updateWorkerStatus now u success rt c) v = healthOf c v"
    by (simp add: healthOf_update_other)
  have tm: "healthy (healthOf c u) \<longrightarrow> healthOf (runTimers t c) u = healthOf c u"
    "(\<not> healthy (healthOf c u) \<and> healthy (healthOf (runTimers t c) u))
      = (\<not> healthy (healthOf c u) \<and> timerDue t c u)"
    "\<not> healthy (healthOf c u) \<and> timerDue t c u
         \<longrightarrow> healthOf (runTimers t c) u = (healthOf c u)\<lparr>healthy := True, errorCount := 0\<rparr>"
    by (auto simp: healthOf_runTimers)
  have sched: "timerDue t (updateWorkerStatus now u False rt c) u
      = (timerDue t c u \<or> now + 5 * 60 * 1000 \<le> t)"
    "timerDue t (updateWorkerStatus now u True rt c) u = timerDue t c u"
    by (auto simp: timerDue_def updateWorkerStatus_def Let_def isDue_def recoveryDelay_def)
  from upd other tm sched show ?thesis by blast
qed

text \<open>
  The transitions at a concrete run: failures at 0, 1 and 299999 ms mark the worker
  unhealthy with failure credit 3; at 300000 ms the timer of the first failure is due and
  the worker recovers with failure credit 0.
\<close>

theorem health_transitions_witness:
  "healthy (healthOf (trackerRun [Outcome 0 ''w'' False 0, Outcome 1 ''w'' False 0]
                        (newController defaultWorkers)) ''w'')
   \<and> \<not> healthy (healthOf (trackerRun [Outcome 0 ''w'' False 0, Outcome 1 ''w'' False 0,
                                       Outcome 299999 ''w'' False 0]
                        (newController defaultWorkers)) ''w'')
   \<and> errorCount (healthOf (trackerRun [Outcome 0 ''w'' False 0, Outcome 1 ''w'' False 0,
                                       Outcome 299999 ''w'' False 0]
                        (newController defaultWorkers)) ''w'') = 3
   \<and> \<not> timerDue 299999 (trackerRun [Outcome 0 ''w'' False 0, Outcome 1 ''w'' False 0,
                                    Outcome 299999 ''w'' False 0]
                        (newController defaultWorkers)) ''w''
   \<and> timerDue 300000 (trackerRun [Outcome 0 ''w'' False 0, Outcome 1 ''w'' False 0,
                                    Outcome 299999 ''w'' False 0]
                        (newController defaultWorkers)) ''w''
   \<and> healthOf (trackerRun [Outcome 0 ''w'' False 0, Outcome 1 ''w'' False 0,
                            Outcome 299999 ''w'' False 0, TimersRun 300000]
                        (newController defaultWorkers)) ''w''
       = \<lparr>healthy = True, lastCheck = 299999, responseTime = 0, errorCount = 0, successCount = 0\<rparr>"
proof -
  define c0 where "c0 = trackerRun [Outcome 0 ''w'' False 0, Outcome 1 ''w'' False 0]
                          (newController defaultWorkers)"
  define c1 where "c1 = updateWorkerStatus 299999 ''w'' False 0 c0"
  have h0: "healthOf c0 ''w''
      = \<lparr>healthy = True, lastCheck = 1, responseTime = 0, errorCount = 2, successCount = 0\<rparr>"
    by (simp add: c0_def trackerRun_def healthOf_update healthOf_newController onFailure_def
        Let_def initialHealth_def)
  have t0: "timers c0 = [(300000, ''w''), (300001, ''w'')]"
    by (simp add: c0_def trackerRun_def updateWorkerStatus_def Let_def recoveryDelay_def
        newController_def initializeWorkerHealth_def allWorkers_def defaultWorkers_def)
  have d0: "\<not> timerDue 299999 c0 ''w''"
    by (simp add: timerDue_def t0 isDue_def)
  have h1: "healthOf c1 ''w''
      = \<lparr>healthy = False, lastCheck = 299999, responseTime = 0, errorCount = 3, successCount = 0\<rparr>"
    by (simp add: c1_def healthOf_update h0 onFailure_def Let_def)
  note a = health_transitions [where c = c0 and u = "''w''" and now = 299999 and success = False
      and rt = 0 and t = 299999 and v = "''w''", folded c1_def]
  note b = health_transitions [where c = c1 and u = "''w''" and now = 300000 and success = False
      and rt = 0 and t = 300000 and v = "''w''"]
  note c = health_transitions [where c = c0 and u = "''w''" and now = 299999 and success = False
      and rt = 0 and t = 300000 and v = "''w''", folded c1_def]
  from a have due1: "\<not> timerDue 299999 c1 ''w''"
    using d0 by simp
  have d0': "timerDue 300000 c0 ''w''"
    by (simp add: timerDue_def t0 isDue_def)
  from c have due2: "timerDue 300000 c1 ''w''"
    using d0' by simp
  from b due2 h1 have rec: "healthOf (runTimers 300000 c1) ''w''
      = \<lparr>healthy = True, lastCheck = 299999, responseTime = 0, errorCount = 0, successCount = 0\<rparr>"
    by simp
  have r0: "trackerRun [Outcome 0 ''w'' False 0, Outcome 1 ''w'' False 0,
              Outcome 299999 ''w'' False 0] (newController defaultWorkers) = c1"
    by (simp add: c1_def c0_def trackerRun_def)
  have r1: "trackerRun [Outcome 0 ''w'' False 0, Outcome 1 ''w'' False 0,
              Outcome 299999 ''w'' False 0, TimersRun 300000] (newController defaultWorkers)
            = runTimers 300000 c1"
    by (simp add: c1_def c0_def trackerRun_def)
  show ?thesis
    unfolding r0 r1 c0_def [symmetric]
    using h0 h1 due1 due2 rec by simp
qed

text \<open>
  Claim C2 as stated fails. A worker with failures at 0, 1 and 299999 ms is marked
  unhealthy at 299999 ms and is healthy again at 300000 ms, when the timer of its first
  failure fires: 1 ms, not 5 minutes, after it was marked. And after six failures and
  three successes a worker is healthy with failure credit 3; the flag turns false at the
  next failure, as the credit goes from 3 to 4.
\<close>

theorem grace_and_threshold_counterexample:
  "healthy (healthOf (trackerRun [Outcome 0 ''w'' False 0, Outcome 1 ''w'' False 0]
                        (newController defaultWorkers)) ''w'')
   \<and> \<not> healthy (healthOf (trackerRun [Outcome 0 ''w'' False 0, Outcome 1 ''w'' False 0,
                                       Outcome 299999 ''w'' False 0]
                        (newController defaultWorkers)) ''w'')
   \<and> healthy (healthOf (trackerRun [Outcome 0 ''w'' False 0, Outcome 1 ''w'' False 0,
                                   Outcome 299999 ''w'' False 0, TimersRun 300000]
                        (newController defaultWorkers)) ''w'')
   \<and> healthy (healthOf (trackerRun [Outcome 0 ''w'' False 0, Outcome 1 ''w'' False 0,
                                   Outcome 2 ''w'' False 0, Outcome 3 ''w'' False 0,
                                   Outcome 4 ''w'' False 0, Outcome 5 ''w'' False 0,
                                   Outcome 6 ''w'' True 50, Outcome 7 ''w'' True 50,
                                   Outcome 8 ''w'' True 50]
                        (newController defaultWorkers)) ''w'')
   \<and> errorCount (healthOf (trackerRun [Outcome 0 ''w'' False 0, Outcome 1 ''w'' False 0,
                                   Outcome 2 ''w'' False 0, Outcome 3 ''w'' False 0,
                                   Outcome 4 ''w'' False 0, Outcome 5 ''w'' False 0,
                                   Outcome 6 ''w'' True 50, Outcome 7 ''w'' True 50,
                                   Outcome 8 ''w'' True 50]
                        (newController defaultWorkers)) ''w'') = 3
   \<and> \<not> healthy (healthOf (trackerRun [Outcome 0 ''w'' False 0, Outcome 1 ''w'' False 0,
                                   Outcome 2 ''w'' False 0, Outcome 3 ''w'' False 0,
                                   Outcome 4 ''w'' False 0, Outcome 5 ''w'' False 0,
                                   Outcome 6 ''w'' True 50, Outcome 7 ''w'' True 50,
                                   Outcome 8 ''w'' True 50, Outcome 9 ''w'' False 0]
                        (newController defaultWorkers)) ''w'')
   \<and> errorCount (healthOf (trackerRun [Outcome 0 ''w'' False 0, Outcome 1 ''w'' False 0,
                                   Outcome 2 ''w'' False 0, Outcome 3 ''w'' False 0,
                                   Outcome 4 ''w'' False 0, Outcome 5 ''w'' False 0,
                                   Outcome 6 ''w'' True 50, Outcome 7 ''w'' True 50,
                                   Outcome 8 ''w'' True 50, Outcome 9 ''w'' False 0]
                        (newController defaultWorkers)) ''w'') = 4"
proof -
  define c1 where "c1 = trackerRun [Outcome 0 ''w'' False 0, Outcome 1 ''w'' False 0,
             Outcome 299999 ''w'' False 0] (newController defaultWorkers)"
  have t: "timerDue 300000 c1 ''w''"
    by (simp add: c1_def timerDue_def trackerRun_def updateWorkerStatus_def Let_def
        recoveryDelay_def isDue_def)
  have h: "\<not> healthy (healthOf c1 ''w'')"
    by (simp add: c1_def trackerRun_def healthOf_update healthOf_newController onFailure_def
        Let_def initialHealth_def)
  have r: "trackerRun [Outcome 0 ''w'' False 0, Outcome 1 ''w'' False 0,
             Outcome 299999 ''w'' False 0, TimersRun 300000] (newController defaultWorkers)
      = runTimers 300000 c1"
    by (simp add: c1_def trackerRun_def)
  have a: "healthy (healthOf (trackerRun [Outcome 0 ''w'' False 0, Outcome 1 ''w'' False 0,
                                   Outcome 299999 ''w'' False 0, TimersRun 300000]
                        (newController defaultWorkers)) ''w'')"
    unfolding r by (simp add: healthOf_runTimers t h)
  have b: "healthy (healthOf (trackerRun [Outcome 0 ''w'' False 0, Outcome 1 ''w'' False 0]
                        (newController defaultWorkers)) ''w'')"
    by (simp add: trackerRun_def healthOf_update healthOf_newController onFailure_def
        Let_def initialHealth_def)
  define c2 where "c2 = trackerRun [Outcome 0 ''w'' False 0, Outcome 1 ''w'' False 0,
                                   Outcome 2 ''w'' False 0, Outcome 3 ''w'' False 0,
                                   Outcome 4 ''w'' False 0, Outcome 5 ''w'' False 0,
                                   Outcome 6 ''w'' True 50, Outcome 7 ''w'' True 50,
                                   Outcome 8 ''w'' True 50] (newController defaultWorkers)"
  have h2: "healthy (healthOf c2 ''w'')" "errorCount (healthOf c2 ''w'') = 3"
    by (simp_all add: c2_def trackerRun_def healthOf_update healthOf_newController onFailure_def
        onSuccess_def Let_def initialHealth_def)
  have r3: "trackerRun [Outcome 0 ''w'' False 0, Outcome 1 ''w'' False 0,
                                   Outcome 2 ''w'' False 0, Outcome 3 ''w'' False 0,
                                   Outcome 4 ''w'' False 0, Outcome 5 ''w'' False 0,
                                   Outcome 6 ''w'' True 50, Outcome 7 ''w'' True 50,
                                   Outcome 8 ''w'' True 50, Outcome 9 ''w'' False 0]
                        (newController defaultWorkers)
      = updateWorkerStatus 9 ''w'' False 0 c2"
    by (simp add: c2_def trackerRun_def)
  have h3: "\<not> healthy (healthOf (updateWorkerStatus 9 ''w'' False 0 c2) ''w'')"
    "errorCount (healthOf (updateWorkerStatus 9 ''w'' False 0 c2) ''w'') = 4"
    by (simp_all add: healthOf_update onFailure_def Let_def h2)
  note f2 = h [unfolded c1_def]
  note f4 = h2(1) [unfolded c2_def] and f5 = h2(2) [unfolded c2_def]
  note f6 = h3(1) [folded r3] and f7 = h3(2) [folded r3]
  from b f2 a f4 f5 f6 f7 show ?thesis
    by (intro conjI)
qed

text \<open>
  Claim C3, as the code has it. Each recorded success sets the smoothed response time to
  \<open>prev * 0.7 + new * 0.3\<close> and a failure leaves it alone. A fresh record starts from
  0, so a single success with response time \<open>t\<close> gives \<open>t * 0.3\<close>, and two successes
  \<open>t1\<close> then \<open>t2\<close> give \<open>t1 * 0.3 * 0.7 + t2 * 0.3\<close>.
\<close>

theorem smoothing_step:
  "responseTime (healthOf (updateWorkerStatus now u True t c) u)
     = responseTime (healthOf c u) * 0.7 + t * 0.3
   \<and> responseTime (healthOf (updateWorkerStatus now u False t c) u) = responseTime (healthOf c u)
   \<and> responseTime (healthOf (updateWorkerStatus now u True t (newController w)) u) = t * 0.3
   \<and> responseTime (healthOf (updateWorkerStatus now2 u True t2
                      (updateWorkerStatus now u True t1 (newController w))) u)
     = t1 * 0.3 * 0.7 + t2 * 0.3"
  by (simp add: healthOf_update healthOf_newController onSuccess_def onFailure_def Let_def
      initialHealth_def)

text \<open>
  Claim C3 as stated fails: one success of 100 ms on the freshly initialized primary
  worker leaves a smoothed response time of 30, not 100.
\<close>

theorem single_success_counterexample:
  "responseTime (healthOf (updateWorkerStatus 1000 ''https://proxy.yoohoo.workers.dev'' True 100
                    (newController defaultWorkers)) ''https://proxy.yoohoo.workers.dev'') = 30
   \<and> responseTime (healthOf (updateWorkerStatus 1000 ''https://proxy.yoohoo.workers.dev'' True 100
                    (newController defaultWorkers)) ''https://proxy.yoohoo.workers.dev'') \<noteq> 100"
  by (simp add: healthOf_update healthOf_newController onSuccess_def Let_def initialHealth_def)

text \<open>
  Claim C10. \<open>updateWorkerStatus\<close> has no failing branch and leaves a record for the
  worker it was called with, whatever the URL. For a URL with no record in the map, the
  outcome is applied to the default record (healthy, both counters 0, response time 0,
  last check now), and the records of the other workers stay as they were.
\<close>

theorem unknown_worker_gets_fresh_record:
  "workerHealth (updateWorkerStatus now u success rt c) u \<noteq> None
   \<and> (workerHealth c u = None \<longrightarrow>
        workerHealth (updateWorkerStatus now u True rt c) u
          = Some \<lparr>healthy = True, lastCheck = now, responseTime = rt * 0.3,
                  errorCount = 0, successCount = 1\<rparr>
      \<and> workerHealth (updateWorkerStatus now u False rt c) u
          = Some \<lparr>healthy = True, lastCheck = now, responseTime = 0,
                  errorCount = 1, successCount = 0\<rparr>
      \<and> workerHealth (updateWorkerStatus now u success rt c) u
          = Some ((if success then onSuccess rt else onFailure)
                    \<lparr>healthy = True, lastCheck = now, responseTime = 0,
                     errorCount = 0, successCount = 0\<rparr>))
   \<and> (v \<noteq> u \<longrightarrow> workerHealth (updateWorkerStatus now u success rt c) v = workerHealth c v)"
  by (simp add: updateWorkerStatus_def Let_def fallbackHealth_def onSuccess_def onFailure_def)

text \<open>A URL the constructor never initialized, recorded once as failure and once as success.\<close>

theorem unknown_worker_witness:
  "workerHealth (newController defaultWorkers) ''https://mirror.example.org'' = None
   \<and> workerHealth (updateWorkerStatus 7 ''https://mirror.example.org'' False 0
                    (newController defaultWorkers)) ''https://mirror.example.org''
       = Some \<lparr>healthy = True, lastCheck = 7, responseTime = 0, errorCount = 1, successCount = 0\<rparr>
   \<and> workerHealth (updateWorkerStatus 7 ''https://mirror.example.org'' True 120
                    (newController defaultWorkers)) ''https://mirror.example.org''
       = Some \<lparr>healthy = True, lastCheck = 7, responseTime = 36, errorCount = 0, successCount = 1\<rparr>"
proof -
  have h: "workerHealth (newController defaultWorkers) ''https://mirror.example.org'' = None"
    by (simp add: workerHealth_newController allWorkers_def defaultWorkers_def)
  from unknown_worker_gets_fresh_record
         [where c = "newController defaultWorkers" and u = "''https://mirror.example.org''"
            and now = 7 and rt = 0 and success = False and v = "''x''"]
       unknown_worker_gets_fresh_record
         [where c = "newController defaultWorkers" and u = "''https://mirror.example.org''"
            and now = 7 and rt = 120 and success = True and v = "''x''"]
       h
  show ?thesis by simp
qed

section \<open>Properties of the fetch path\<close>

lemma elapse_fields [simp]:
  "fetches (elapse d s) = fetches s" "trace (elapse d s) = trace s"
  "clock (elapse d s) = clock s + d" "callerAborted (elapse d s) = callerAborted s"
  by (simp_all add: elapse_def)

lemma noteAbort_fields [simp]:
  "fetches (noteAbort b s) = fetches s" "trace (noteAbort b s) = trace s"
  "clock (noteAbort b s) = clock s" "ctl (noteAbort b s) = ctl s"
  by (simp_all add: noteAbort_def)

lemma recordOutcome_fields [simp]:
  "fetches (recordOutcome u b rt s) = fetches s"
  "trace (recordOutcome u b rt s) = trace s @ [Recorded u b]"
  "clock (recordOutcome u b rt s) = clock s"
  "callerAborted (recordOutcome u b rt s) = callerAborted s"
  "ctl (recordOutcome u b rt s) = updateWorkerStatus (clock s) u b rt (ctl s)"
  by (simp_all add: recordOutcome_def)

lemma delay_fields [simp]:
  "fetches (delay ms s) = fetches s" "trace (delay ms s) = trace s @ [Waited ms]"
  "clock (delay ms s) = clock s + nat ms" "callerAborted (delay ms s) = callerAborted s"
  by (simp_all add: delay_def)

lemma tryWorkers_answer:
  "fst (tryWorkers cfg env ep ps ws s) = sweepAnswer cfg env ep ps ws (fetches s)"
  by (induction ws arbitrary: s) (simp_all add: Let_def split: sum.splits)

lemma tryWorkers_trace:
  "trace (snd (tryWorkers cfg env ep ps ws s)) = trace s @ sweepTrace cfg env ep ps ws (fetches s)"
  by (induction ws arbitrary: s) (simp_all add: Let_def split: sum.splits)

lemma tryWorkers_fetches:
  "fetches (snd (tryWorkers cfg env ep ps ws s))
     = fetches s + length (attempts (sweepTrace cfg env ep ps ws (fetches s)))"
  by (induction ws arbitrary: s) (simp_all add: Let_def split: sum.splits)

lemma waits_append [simp]: "waits (xs @ ys) = waits xs @ waits ys"
  by (induction xs rule: waits.induct) simp_all

lemma attempts_append [simp]: "attempts (xs @ ys) = attempts xs @ attempts ys"
  by (induction xs rule: attempts.induct) simp_all

lemma waits_sweepTrace [simp]: "waits (sweepTrace cfg env ep ps ws n) = []"
  by (induction ws arbitrary: n) (simp_all add: Let_def)

lemma attempts_sweepTrace_prefix: "prefix (attempts (sweepTrace cfg env ep ps ws n)) ws"
  by (induction ws arbitrary: n) (simp_all add: Let_def)

lemma attempts_sweepTrace_None:
  "sweepAnswer cfg env ep ps ws n = None \<Longrightarrow> attempts (sweepTrace cfg env ep ps ws n) = ws"
  by (induction ws arbitrary: n) (auto simp: Let_def split: sum.splits)

lemma sweeps_no_wait: "waits xs = [] \<Longrightarrow> sweeps xs = [attempts xs]"
  by (induction xs rule: sweeps.induct) simp_all

lemma sweeps_append_Waited:
  "waits xs = [] \<Longrightarrow> sweeps (xs @ Waited d # ys) = attempts xs # sweeps ys"
  by (induction xs rule: sweeps.induct) simp_all

lemma absorbed_sweepTrace: "absorbed (sweepTrace cfg env ep ps ws n)"
  by (induction ws arbitrary: n) (simp_all add: Let_def)

lemma absorbed_failed_sweep:
  "sweepAnswer cfg env ep ps ws n = None \<Longrightarrow>
     absorbed (sweepTrace cfg env ep ps ws n @ ys) = absorbed ys"
  by (induction ws arbitrary: n) (auto simp: Let_def split: sum.splits)


declare fetchWithFallback.simps [simp del]


lemma fetchWithFallback_stop:
  "\<not> (fst (tryWorkers cfg env ep ps (allWorkers w) s) = None \<and> retries < maxRetries cfg) \<Longrightarrow>
     snd (fetchWithFallback cfg w env ep ps retries s)
       = snd (tryWorkers cfg env ep ps (allWorkers w) s)
     \<and> fst (fetchWithFallback cfg w env ep ps retries s)
       = (case fst (tryWorkers cfg env ep ps (allWorkers w) s) of
            Some response \<Rightarrow> Inr response | None \<Rightarrow> Inl AllWorkersFailed)"
  by (subst (1 2) fetchWithFallback.simps) (auto simp: Let_def split: option.splits)

lemma fetchWithFallback_retry:
  "fst (tryWorkers cfg env ep ps (allWorkers w) s) = None \<Longrightarrow> retries < maxRetries cfg \<Longrightarrow>
     fetchWithFallback cfg w env ep ps retries s
       = fetchWithFallback cfg w env ep ps (retries + 1)
           (delay (1000 * (retries + 1))
              (noteAbort (abortDuringDelay env retries)
                 (snd (tryWorkers cfg env ep ps (allWorkers w) s))))"
  by (subst fetchWithFallback.simps) (simp add: Let_def)

lemma fetchWithFallback_waits:
  "\<exists>k. waits (trace (snd (fetchWithFallback cfg w env ep ps retries s)))
          = waits (trace s) @ map (\<lambda>N. 1000 * N) [retries + 1..retries + int k]"
proof (induction cfg w env ep ps retries s rule: fetchWithFallback.induct)
  case (1 cfg w env ep ps retries s)
  let ?r = "tryWorkers cfg env ep ps (allWorkers w) s"
  show ?case
  proof (cases "fst ?r = None \<and> retries < maxRetries cfg")
    case True
    then have a: "fst ?r = None" and b: "retries < maxRetries cfg" by simp_all
    from "1.IH" [OF refl a b] obtain k where
      k: "waits (trace (snd (fetchWithFallback cfg w env ep ps (retries + 1)
             (delay (1000 * (retries + 1)) (noteAbort (abortDuringDelay env retries) (snd ?r))))))
          = waits (trace (delay (1000 * (retries + 1))
               (noteAbort (abortDuringDelay env retries) (snd ?r))))
            @ map (\<lambda>N. 1000 * N) [retries + 1 + 1..retries + 1 + int k]"
      by blast
    have u: "[retries + 1..retries + int (Suc k)] = (retries + 1) # [retries + 1 + 1..retries + 1 + int k]"
      by (subst upto_rec1) (simp_all add: add.commute add.left_commute)
    show ?thesis
      apply (rule exI [of _ "Suc k"])
      apply (simp only: fetchWithFallback_retry [OF a b] k u)
      apply (simp add: tryWorkers_trace)
      done
  next
    case False
    show ?thesis
      by (rule exI [of _ 0]) (simp add: fetchWithFallback_stop [OF False] tryWorkers_trace)
  qed
qed


lemma sweeps_nonempty [simp]: "sweeps xs \<noteq> []"
  by (induction xs rule: sweeps.induct) simp_all

lemma no_success_failed_sweep:
  "sweepAnswer cfg env ep ps ws n = None \<Longrightarrow>
     Recorded u True \<notin> set (sweepTrace cfg env ep ps ws n)"
  by (induction ws arbitrary: n) (auto simp: Let_def split: sum.splits)

lemma success_in_sweep:
  "sweepAnswer cfg env ep ps ws n = Some d \<Longrightarrow>
     \<exists>u. Recorded u True \<in> set (sweepTrace cfg env ep ps ws n)"
  by (induction ws arbitrary: n) (auto simp: Let_def split: sum.splits)

lemma fetchWithFallback_structure:
  "\<exists>L. trace (snd (fetchWithFallback cfg w env ep ps retries s)) = trace s @ L
       \<and> absorbed L
       \<and> (\<forall>sw \<in> set (sweeps L). prefix sw (allWorkers w))
       \<and> (\<forall>sw \<in> set (butlast (sweeps L)). sw = allWorkers w)
       \<and> (isl (fst (fetchWithFallback cfg w env ep ps retries s))
            \<longrightarrow> fst (fetchWithFallback cfg w env ep ps retries s) = Inl AllWorkersFailed
                \<and> last (sweeps L) = allWorkers w
                \<and> (\<forall>u. Recorded u True \<notin> set L))
       \<and> (\<not> isl (fst (fetchWithFallback cfg w env ep ps retries s))
            \<longrightarrow> (\<exists>u. Recorded u True \<in> set L))"
proof (induction cfg w env ep ps retries s rule: fetchWithFallback.induct)
  case (1 cfg w env ep ps retries s)
  let ?ws = "allWorkers w"
  let ?r = "tryWorkers cfg env ep ps ?ws s"
  let ?A = "sweepTrace cfg env ep ps ?ws (fetches s)"
  show ?case
  proof (cases "fst ?r = None \<and> retries < maxRetries cfg")
    case True
    then have a: "fst ?r = None" and b: "retries < maxRetries cfg" by simp_all
    define d where "d = 1000 * (retries + 1)"
    let ?s1 = "delay d (noteAbort (abortDuringDelay env retries) (snd ?r))"
    let ?res = "fetchWithFallback cfg w env ep ps (retries + 1) ?s1"
    have unfold: "fetchWithFallback cfg w env ep ps retries s = ?res"
      unfolding d_def by (rule fetchWithFallback_retry [OF a b])
    from a have none: "sweepAnswer cfg env ep ps ?ws (fetches s) = None"
      by (simp add: tryWorkers_answer)
    from "1.IH" [OF refl a b, folded d_def] obtain L where
      L: "trace (snd ?res) = trace ?s1 @ L" "absorbed L"
         "\<forall>sw \<in> set (sweeps L). prefix sw ?ws"
         "\<forall>sw \<in> set (butlast (sweeps L)). sw = ?ws"
         "isl (fst ?res) \<longrightarrow> fst ?res = Inl AllWorkersFailed \<and> last (sweeps L) = ?ws
             \<and> (\<forall>u. Recorded u True \<notin> set L)"
         "\<not> isl (fst ?res) \<longrightarrow> (\<exists>u. Recorded u True \<in> set L)"
      by blast
    let ?L = "?A @ Waited d # L"
    have sw: "sweeps ?L = ?ws # sweeps L"
      by (simp add: sweeps_append_Waited attempts_sweepTrace_None [OF none])
    have c1: "trace (snd ?res) = trace s @ ?L"
      using L(1) by (simp add: tryWorkers_trace)
    have c2: "absorbed ?L"
      by (simp add: absorbed_failed_sweep [OF none] L(2))
    have c3: "\<forall>sw \<in> set (sweeps ?L). prefix sw ?ws"
      using L(3) by (simp add: sw)
    have c4: "\<forall>sw \<in> set (butlast (sweeps ?L)). sw = ?ws"
      using L(4) by (simp add: sw)
    have nosucc: "\<forall>u. Recorded u True \<notin> set ?A"
      using no_success_failed_sweep [OF none] by blast
    have c5: "isl (fst ?res) \<longrightarrow> fst ?res = Inl AllWorkersFailed \<and> last (sweeps ?L) = ?ws
             \<and> (\<forall>u. Recorded u True \<notin> set ?L)"
      using L(5) nosucc by (simp add: sw)
    have c6: "\<not> isl (fst ?res) \<longrightarrow> (\<exists>u. Recorded u True \<in> set ?L)"
      using L(6) by auto
    show ?thesis
      unfolding unfold
      using c1 c2 c3 c4 c5 c6 by blast
  next
    case False
    have sw: "sweeps ?A = [attempts ?A]"
      by (simp add: sweeps_no_wait)
    show ?thesis
      apply (rule exI [of _ ?A])
      apply (simp add: fetchWithFallback_stop [OF False] tryWorkers_trace absorbed_sweepTrace
          sw attempts_sweepTrace_prefix tryWorkers_answer split: option.splits)
      apply (auto simp: attempts_sweepTrace_None no_success_failed_sweep dest: success_in_sweep)
      done
  qed
qed

lemma all_fail_sweep:
  "\<forall>n. \<forall>u \<in> set ws. isl (snd (fetchFromWorker cfg env n u ep ps)) \<Longrightarrow>
     sweepAnswer cfg env ep ps ws n = None"
proof (induction ws arbitrary: n)
  case Nil
  show ?case by simp
next
  case (Cons a ws)
  from Cons.prems have "isl (snd (fetchFromWorker cfg env n a ep ps))"
    by simp
  moreover from Cons.prems have "\<forall>n. \<forall>u \<in> set ws. isl (snd (fetchFromWorker cfg env n u ep ps))"
    by simp
  ultimately show ?case
    by (cases "snd (fetchFromWorker cfg env n a ep ps)") (simp_all add: Cons.IH)
qed

lemma fetchWithFallback_all_fail:
  "\<forall>n. \<forall>u \<in> set (allWorkers w). isl (snd (fetchFromWorker cfg env n u ep ps)) \<Longrightarrow>
   retries \<le> maxRetries cfg \<Longrightarrow>
     fst (fetchWithFallback cfg w env ep ps retries s) = Inl AllWorkersFailed
     \<and> attempts (trace (snd (fetchWithFallback cfg w env ep ps retries s)))
         = attempts (trace s) @ concat (replicate (Suc (nat (maxRetries cfg - retries))) (allWorkers w))
     \<and> waits (trace (snd (fetchWithFallback cfg w env ep ps retries s)))
         = waits (trace s) @ map (\<lambda>N. 1000 * N) [retries + 1..maxRetries cfg]"
proof (induction cfg w env ep ps retries s rule: fetchWithFallback.induct)
  case (1 cfg w env ep ps retries s)
  let ?ws = "allWorkers w"
  let ?r = "tryWorkers cfg env ep ps ?ws s"
  have none: "sweepAnswer cfg env ep ps ?ws (fetches s) = None"
    by (rule all_fail_sweep [OF "1.prems"(1)])
  then have a: "fst ?r = None"
    by (simp add: tryWorkers_answer)
  show ?case
  proof (cases "retries < maxRetries cfg")
    case True
    have le: "retries + 1 \<le> maxRetries cfg" using True by simp
    have n: "nat (maxRetries cfg - retries) = Suc (nat (maxRetries cfg - (retries + 1)))"
      using True by simp
    have u: "[retries + 1..maxRetries cfg] = (retries + 1) # [retries + 1 + 1..maxRetries cfg]"
      using le by (subst upto_rec1) simp_all
    note ih = "1.IH" [OF refl a True "1.prems"(1) le]
    show ?thesis
      apply (simp only: fetchWithFallback_retry [OF a True] ih n u)
      apply (simp add: tryWorkers_trace attempts_sweepTrace_None [OF none])
      done
  next
    case False
    then have eq: "maxRetries cfg = retries" using "1.prems"(2) by simp
    have stop: "\<not> (fst ?r = None \<and> retries < maxRetries cfg)" using False by simp
    show ?thesis
      by (simp add: fetchWithFallback_stop [OF stop] a tryWorkers_trace
          attempts_sweepTrace_None [OF none] eq)
  qed
qed

lemma elapse_ctl [simp]: "ctl (elapse d s) = runTimers (clock s + d) (ctl s)"
  by (simp add: elapse_def)

lemma noteAbort_callerAborted [simp]: "callerAborted (noteAbort b s) = (callerAborted s \<or> b)"
  by (simp add: noteAbort_def)

lemma delay_ctl [simp]: "ctl (delay ms s) = runTimers (clock s + nat ms) (ctl s)"
  by (simp add: delay_def)

lemma tryWorkers_health_blind:
  "sameButHealth s t \<Longrightarrow>
     sameButHealth (snd (tryWorkers cfg env ep ps ws s)) (snd (tryWorkers cfg env ep ps ws t))"
proof (induction ws arbitrary: s t)
  case Nil
  then show ?case by simp
next
  case (Cons a ws)
  from Cons.prems have f: "fetches s = fetches t"
    by (simp add: sameButHealth_def)
  show ?case
  proof (cases "snd (fetchFromWorker cfg env (fetches t) a ep ps)")
    case (Inl e)
    show ?thesis
      using Cons.prems
      by (simp add: f Inl Let_def) (rule Cons.IH, simp add: sameButHealth_def)
  next
    case (Inr d)
    show ?thesis
      using Cons.prems by (simp add: f Inr Let_def sameButHealth_def)
  qed
qed

lemma fetchWithFallback_health_blind:
  "sameButHealth s t \<Longrightarrow>
     fst (fetchWithFallback cfg w env ep ps retries s) = fst (fetchWithFallback cfg w env ep ps retries t)
     \<and> sameButHealth (snd (fetchWithFallback cfg w env ep ps retries s))
                     (snd (fetchWithFallback cfg w env ep ps retries t))"
proof (induction cfg w env ep ps retries s arbitrary: t rule: fetchWithFallback.induct)
  case (1 cfg w env ep ps retries s)
  let ?ws = "allWorkers w"
  let ?r = "tryWorkers cfg env ep ps ?ws s"
  let ?q = "tryWorkers cfg env ep ps ?ws t"
  from "1.prems" have f: "fetches s = fetches t"
    by (simp add: sameButHealth_def)
  have ans: "fst ?q = fst ?r"
    by (simp add: tryWorkers_answer f)
  have rel: "sameButHealth (snd ?r) (snd ?q)"
    by (rule tryWorkers_health_blind [OF "1.prems"])
  show ?case
  proof (cases "fst ?r = None \<and> retries < maxRetries cfg")
    case True
    then have a: "fst ?r = None" and b: "retries < maxRetries cfg" by simp_all
    from a ans have a': "fst ?q = None" by simp
    have rel': "sameButHealth
        (delay (1000 * (retries + 1)) (noteAbort (abortDuringDelay env retries) (snd ?r)))
        (delay (1000 * (retries + 1)) (noteAbort (abortDuringDelay env retries) (snd ?q)))"
      using rel by (simp add: sameButHealth_def)
    show ?thesis
      unfolding fetchWithFallback_retry [OF a b] fetchWithFallback_retry [OF a' b]
      by (rule "1.IH" [OF refl a b rel'])
  next
    case False
    then have False': "\<not> (fst ?q = None \<and> retries < maxRetries cfg)"
      by (simp add: ans)
    show ?thesis
      using rel by (simp add: fetchWithFallback_stop [OF False] fetchWithFallback_stop [OF False'] ans)
  qed
qed

lemma fetchFromWorker_network:
  "network env' = network env \<Longrightarrow>
     fetchFromWorker cfg env' n u ep ps = fetchFromWorker cfg env n u ep ps"
  by (simp add: fetchFromWorker_def)

lemma sweepAnswer_network:
  assumes "network env' = network env"
  shows "sweepAnswer cfg env' ep ps ws n = sweepAnswer cfg env ep ps ws n"
  by (induction ws arbitrary: n) (simp_all add: fetchFromWorker_network [OF assms] split: sum.splits)

lemma tryWorkers_abort_blind:
  "network env' = network env \<Longrightarrow> sameButAbort s t \<Longrightarrow>
     sameButAbort (snd (tryWorkers cfg env ep ps ws s)) (snd (tryWorkers cfg env' ep ps ws t))"
proof (induction ws arbitrary: s t)
  case Nil
  then show ?case by simp
next
  case (Cons a ws)
  from Cons.prems have f: "fetches s = fetches t"
    by (simp add: sameButAbort_def)
  note n = fetchFromWorker_network [OF Cons.prems(1)]
  show ?case
  proof (cases "snd (fetchFromWorker cfg env (fetches t) a ep ps)")
    case (Inl e)
    show ?thesis
      using Cons.prems(2)
      by (simp add: f n Inl Let_def) (rule Cons.IH [OF Cons.prems(1)], simp add: sameButAbort_def)
  next
    case (Inr d)
    show ?thesis
      using Cons.prems(2) by (simp add: f n Inr Let_def sameButAbort_def)
  qed
qed

lemma fetchWithFallback_abort_blind:
  "network env' = network env \<Longrightarrow> sameButAbort s t \<Longrightarrow>
     fst (fetchWithFallback cfg w env ep ps retries s) = fst (fetchWithFallback cfg w env' ep ps retries t)
     \<and> sameButAbort (snd (fetchWithFallback cfg w env ep ps retries s))
                    (snd (fetchWithFallback cfg w env' ep ps retries t))"
proof (induction cfg w env ep ps retries s arbitrary: t rule: fetchWithFallback.induct)
  case (1 cfg w env ep ps retries s)
  let ?ws = "allWorkers w"
  let ?r = "tryWorkers cfg env ep ps ?ws s"
  let ?q = "tryWorkers cfg env' ep ps ?ws t"
  from "1.prems" have f: "fetches s = fetches t"
    by (simp add: sameButAbort_def)
  have ans: "fst ?q = fst ?r"
    by (simp add: tryWorkers_answer f sweepAnswer_network [OF "1.prems"(1)])
  have rel: "sameButAbort (snd ?r) (snd ?q)"
    by (rule tryWorkers_abort_blind [OF "1.prems"])
  show ?case
  proof (cases "fst ?r = None \<and> retries < maxRetries cfg")
    case True
    then have a: "fst ?r = None" and b: "retries < maxRetries cfg" by simp_all
    from a ans have a': "fst ?q = None" by simp
    have rel': "sameButAbort
        (delay (1000 * (retries + 1)) (noteAbort (abortDuringDelay env retries) (snd ?r)))
        (delay (1000 * (retries + 1)) (noteAbort (abortDuringDelay env' retries) (snd ?q)))"
      using rel by (simp add: sameButAbort_def)
    show ?thesis
      unfolding fetchWithFallback_retry [OF a b] fetchWithFallback_retry [OF a' b]
      by (rule "1.IH" [OF refl a b "1.prems"(1) rel'])
  next
    case False
    then have False': "\<not> (fst ?q = None \<and> retries < maxRetries cfg)"
      by (simp add: ans)
    show ?thesis
      using rel by (simp add: fetchWithFallback_stop [OF False] fetchWithFallback_stop [OF False'] ans)
  qed
qed

lemma length_sweeps: "length (sweeps xs) = Suc (length (waits xs))"
  by (induction xs rule: sweeps.induct) simp_all

lemma all_same_butlast_last:
  "xs \<noteq> [] \<Longrightarrow> \<forall>x \<in> set (butlast xs). x = y \<Longrightarrow> last xs = y \<Longrightarrow> \<forall>x \<in> set xs. x = y"
  by (cases xs rule: rev_cases) auto

lemma sweeps_all_same:
  assumes "\<forall>sw \<in> set (butlast (sweeps L)). sw = ws" and "last (sweeps L) = ws"
  shows "sweeps L = replicate (Suc (length (waits L))) ws"
proof -
  have "\<forall>sw \<in> set (sweeps L). sw = ws"
    by (rule all_same_butlast_last [OF sweeps_nonempty assms])
  then have "replicate (length (sweeps L)) ws = sweeps L"
    by (rule replicate_length_same)
  then show ?thesis
    by (simp add: length_sweeps)
qed

lemma deadNetwork_fails:
  "\<forall>n. \<forall>u \<in> set (allWorkers w). isl (snd (fetchFromWorker defaultConfig deadNetwork n u ep ps))"
  by (simp add: fetchFromWorker_def deadNetwork_def defaultConfig_def)

text \<open>
  Claim C1. When every attempt at every configured worker fails and \<open>maxRetries\<close> is not
  negative, \<open>fetchWithFallback\<close> rejects with the single error \<open>All workers failed\<close>
  after exactly \<open>maxRetries + 1\<close> sweeps, each over all workers in order: the primary and
  the fallbacks, so \<open>(maxRetries + 1) * (1 + number of fallbacks)\<close> attempts.
\<close>

theorem all_endpoints_failed:
  assumes "\<forall>n. \<forall>u \<in> set (allWorkers w). isl (snd (fetchFromWorker cfg env n u ep ps))"
    and "0 \<le> maxRetries cfg"
  shows "fst (fetchWithFallback cfg w env ep ps 0 (startRequest c now)) = Inl AllWorkersFailed
     \<and> sweeps (trace (snd (fetchWithFallback cfg w env ep ps 0 (startRequest c now))))
         = replicate (nat (maxRetries cfg + 1)) (allWorkers w)
     \<and> attempts (trace (snd (fetchWithFallback cfg w env ep ps 0 (startRequest c now))))
         = concat (replicate (nat (maxRetries cfg + 1)) (allWorkers w))
     \<and> length (attempts (trace (snd (fetchWithFallback cfg w env ep ps 0 (startRequest c now)))))
         = nat (maxRetries cfg + 1) * (1 + length (fallbacks w))"
proof -
  let ?res = "fetchWithFallback cfg w env ep ps 0 (startRequest c now)"
  have t0: "trace (startRequest c now) = []"
    by (simp add: startRequest_def)
  have n: "Suc (nat (maxRetries cfg - 0)) = nat (maxRetries cfg + 1)"
    using assms(2) by simp
  note af = fetchWithFallback_all_fail [OF assms(1), of 0 "startRequest c now", unfolded t0 n]
  from af assms(2) have r: "fst ?res = Inl AllWorkersFailed"
    and at: "attempts (trace (snd ?res)) = concat (replicate (nat (maxRetries cfg + 1)) (allWorkers w))"
    and wt: "waits (trace (snd ?res)) = map (\<lambda>N. 1000 * N) [0 + 1..maxRetries cfg]"
    by simp_all
  from fetchWithFallback_structure [of cfg w env ep ps 0 "startRequest c now"]
  obtain L where L: "trace (snd ?res) = trace (startRequest c now) @ L"
    "\<forall>sw \<in> set (butlast (sweeps L)). sw = allWorkers w"
    "isl (fst ?res) \<longrightarrow> fst ?res = Inl AllWorkersFailed \<and> last (sweeps L) = allWorkers w
       \<and> (\<forall>u. Recorded u True \<notin> set L)"
    by blast
  from L(1) have tl: "L = trace (snd ?res)"
    by (simp add: t0)
  from L(2) have "\<forall>sw \<in> set (butlast (sweeps (trace (snd ?res)))). sw = allWorkers w"
    unfolding tl .
  moreover from L(3) r have "last (sweeps (trace (snd ?res))) = allWorkers w"
    unfolding tl by simp
  ultimately have "sweeps (trace (snd ?res))
      = replicate (Suc (length (waits (trace (snd ?res))))) (allWorkers w)"
    by (rule sweeps_all_same)
  also have "Suc (length (waits (trace (snd ?res)))) = nat (maxRetries cfg + 1)"
    using assms(2) by (simp add: wt)
  finally have sw: "sweeps (trace (snd ?res)) = replicate (nat (maxRetries cfg + 1)) (allWorkers w)" .
  have len: "length (attempts (trace (snd ?res)))
      = nat (maxRetries cfg + 1) * (1 + length (fallbacks w))"
    by (simp add: at length_concat sum_list_replicate allWorkers_def)
  from r sw at len show ?thesis by blast
qed

text \<open>With the constructor's six workers and \<open>maxRetries = 3\<close>: 4 sweeps, 24 attempts.\<close>

theorem all_endpoints_failed_witness:
  "fst (fetchWithFallback defaultConfig defaultWorkers deadNetwork ''/search'' ''q=cats'' 0
          (startRequest (newController defaultWorkers) 0)) = Inl AllWorkersFailed
   \<and> length (sweeps (trace (snd (fetchWithFallback defaultConfig defaultWorkers deadNetwork
          ''/search'' ''q=cats'' 0 (startRequest (newController defaultWorkers) 0))))) = 4
   \<and> length (attempts (trace (snd (fetchWithFallback defaultConfig defaultWorkers deadNetwork
          ''/search'' ''q=cats'' 0 (startRequest (newController defaultWorkers) 0))))) = 24"
proof -
  have m: "0 \<le> maxRetries defaultConfig"
    by (simp add: defaultConfig_def)
  have k: "nat (maxRetries defaultConfig + 1) = 4" "length (fallbacks defaultWorkers) = 5"
    by (simp_all add: defaultConfig_def defaultWorkers_def)
  note t = all_endpoints_failed [OF deadNetwork_fails m, of defaultWorkers "''/search''" "''q=cats''"
      "newController defaultWorkers" 0, unfolded k]
  from t have a: "fst (fetchWithFallback defaultConfig defaultWorkers deadNetwork ''/search''
      ''q=cats'' 0 (startRequest (newController defaultWorkers) 0)) = Inl AllWorkersFailed"
    by (rule conjunct1)
  from t have b: "sweeps (trace (snd (fetchWithFallback defaultConfig defaultWorkers deadNetwork
      ''/search'' ''q=cats'' 0 (startRequest (newController defaultWorkers) 0))))
      = replicate 4 (allWorkers defaultWorkers)"
    by (rule conjunct1 [OF conjunct2])
  from t have c: "length (attempts (trace (snd (fetchWithFallback defaultConfig defaultWorkers
      deadNetwork ''/search'' ''q=cats'' 0 (startRequest (newController defaultWorkers) 0)))))
      = 4 * (1 + 5)"
    by (rule conjunct2 [OF conjunct2 [OF conjunct2]])
  show ?thesis
    by (simp add: a b c)
qed

lemma fetchFromWorker_success:
  "(snd (fetchFromWorker cfg env n u ep ps) = Inr d) =
     (settlesAfter (network env n (requestUrl u ep ps)) < requestTimeout cfg
      \<and> (\<exists>st. reply (network env n (requestUrl u ep ps)) = Responds st (Some d)
                \<and> responseOk st \<and> \<not> falsy d \<and> \<not> emptyObject d))"
  by (auto simp: fetchFromWorker_def Let_def split: net_reply.splits option.splits)

lemma sweep_first_success:
  "\<forall>i < length pre. isl (snd (fetchFromWorker cfg env (n + i) (pre ! i) ep ps)) \<Longrightarrow>
   snd (fetchFromWorker cfg env (n + length pre) k ep ps) = Inr d \<Longrightarrow>
     sweepAnswer cfg env ep ps (pre @ k # post) n = Some d
     \<and> attempts (sweepTrace cfg env ep ps (pre @ k # post) n) = pre @ [k]
     \<and> last (sweepTrace cfg env ep ps (pre @ k # post) n) = Recorded k True
     \<and> sweepTrace cfg env ep ps (pre @ k # post) n \<noteq> []"
proof (induction pre arbitrary: n)
  case Nil
  then show ?case by (simp add: Let_def)
next
  case (Cons p pre)
  from Cons.prems(1) have h0: "isl (snd (fetchFromWorker cfg env n p ep ps))"
    by fastforce
  have h1: "\<forall>i < length pre. isl (snd (fetchFromWorker cfg env (Suc n + i) (pre ! i) ep ps))"
  proof (intro allI impI)
    fix i assume "i < length pre"
    then have "Suc i < length (p # pre)" by simp
    with Cons.prems(1) have "isl (snd (fetchFromWorker cfg env (n + Suc i) ((p # pre) ! Suc i) ep ps))"
      by blast
    then show "isl (snd (fetchFromWorker cfg env (Suc n + i) (pre ! i) ep ps))" by simp
  qed
  from Cons.prems(2) have h2: "snd (fetchFromWorker cfg env (Suc n + length pre) k ep ps) = Inr d"
    by simp
  note ih = Cons.IH [OF h1 h2]
  from h0 obtain e where e: "snd (fetchFromWorker cfg env n p ep ps) = Inl e"
    by (cases "snd (fetchFromWorker cfg env n p ep ps)") simp_all
  from ih show ?case
    by (simp add: e Let_def)
qed

lemma tryWorkers_first_success_state:
  "\<forall>i < length pre. isl (snd (fetchFromWorker cfg env (fetches s + i) (pre ! i) ep ps)) \<Longrightarrow>
   snd (fetchFromWorker cfg env (fetches s + length pre) k ep ps) = Inr d \<Longrightarrow>
     \<exists>s1. snd (tryWorkers cfg env ep ps (pre @ k # post) s)
            = recordOutcome k True
                (real (fst (fetchFromWorker cfg env (fetches s + length pre) k ep ps))) s1"
proof (induction pre arbitrary: s)
  case Nil
  then show ?case by (simp add: Let_def) blast
next
  case (Cons p pre)
  from Cons.prems(1) have h0: "isl (snd (fetchFromWorker cfg env (fetches s) p ep ps))"
    by fastforce
  then obtain e where e: "snd (fetchFromWorker cfg env (fetches s) p ep ps) = Inl e"
    by (cases "snd (fetchFromWorker cfg env (fetches s) p ep ps)") simp_all
  define s2 where "s2 = recordOutcome p False 0
      (elapse (fst (fetchFromWorker cfg env (fetches s) p ep ps))
         (noteAbort (abortDuringFetch env (fetches s))
            (s\<lparr>fetches := fetches s + 1,
               trace := trace s @ [Attempted p (snd (fetchFromWorker cfg env (fetches s) p ep ps))]\<rparr>)))"
  have f2: "fetches s2 = Suc (fetches s)"
    by (simp add: s2_def)
  have step: "tryWorkers cfg env ep ps ((p # pre) @ k # post) s
      = tryWorkers cfg env ep ps (pre @ k # post) s2"
    by (simp add: e Let_def s2_def)
  have h1: "\<forall>i < length pre. isl (snd (fetchFromWorker cfg env (fetches s2 + i) (pre ! i) ep ps))"
  proof (intro allI impI)
    fix i assume "i < length pre"
    then have "Suc i < length (p # pre)" by simp
    with Cons.prems(1)
    have "isl (snd (fetchFromWorker cfg env (fetches s + Suc i) ((p # pre) ! Suc i) ep ps))"
      by blast
    then show "isl (snd (fetchFromWorker cfg env (fetches s2 + i) (pre ! i) ep ps))"
      by (simp add: f2)
  qed
  from Cons.prems(2) have h2: "snd (fetchFromWorker cfg env (fetches s2 + length pre) k ep ps) = Inr d"
    by (simp add: f2)
  from Cons.IH [OF h1 h2] show ?case
    unfolding step by (simp add: f2)
qed

lemma fetchWithFallback_answered:
  "sweepAnswer cfg env ep ps (allWorkers w) (fetches s) = Some d \<Longrightarrow>
     fst (fetchWithFallback cfg w env ep ps retries s) = Inr d
     \<and> snd (fetchWithFallback cfg w env ep ps retries s)
         = snd (tryWorkers cfg env ep ps (allWorkers w) s)"
proof -
  assume a: "sweepAnswer cfg env ep ps (allWorkers w) (fetches s) = Some d"
  then have stop: "\<not> (fst (tryWorkers cfg env ep ps (allWorkers w) s) = None \<and> retries < maxRetries cfg)"
    by (simp add: tryWorkers_answer)
  show ?thesis
    by (simp add: fetchWithFallback_stop [OF stop] tryWorkers_answer a)
qed

lemma thirdAnswers_sweepAnswer:
  "sweepAnswer defaultConfig thirdAnswers ''/search'' ''q=cats'' (allWorkers defaultWorkers) 0
     = Some okPayload"
  by (simp add: allWorkers_def defaultWorkers_def fetchFromWorker_def thirdAnswers_def
      requestUrl_def defaultConfig_def responseOk_def okPayload_def Let_def)

lemma thirdAnswers_sweepTrace:
  "sweepTrace defaultConfig thirdAnswers ''/search'' ''q=cats'' (allWorkers defaultWorkers) 0
     = [Attempted ''https://proxy.yoohoo.workers.dev'' (Inl TypeError),
        Recorded ''https://proxy.yoohoo.workers.dev'' False,
        Attempted ''https://proxy1.yoohoo.workers.dev'' (Inl TypeError),
        Recorded ''https://proxy1.yoohoo.workers.dev'' False,
        Attempted ''https://proxy2.yoohoo.workers.dev'' (Inr okPayload),
        Recorded ''https://proxy2.yoohoo.workers.dev'' True]"
  by (simp add: allWorkers_def defaultWorkers_def fetchFromWorker_def thirdAnswers_def
      requestUrl_def defaultConfig_def responseOk_def okPayload_def Let_def)

text \<open>
  Claim C5. In a sweep (a call of \<open>fetchWithFallback\<close> at any retry count), let the
  attempts at the workers before worker \<open>k\<close> fail and let \<open>k\<close> answer in time with a
  success status and a body that parses to a truthy, non-empty value. Then the call
  returns exactly that parsed body, the workers attempted are those before \<open>k\<close> and
  \<open>k\<close> itself (the later ones are not fetched and no wait follows), and the last thing
  done is to record a success for \<open>k\<close> with the time its fetch took.
\<close>

theorem first_success_short_circuits:
  assumes "allWorkers w = pre @ k # post"
    and "\<forall>i < length pre. isl (snd (fetchFromWorker cfg env (fetches s + i) (pre ! i) ep ps))"
    and "settlesAfter (network env (fetches s + length pre) (requestUrl k ep ps)) < requestTimeout cfg"
    and "reply (network env (fetches s + length pre) (requestUrl k ep ps)) = Responds st (Some payload)"
    and "responseOk st" and "\<not> falsy payload" and "\<not> emptyObject payload"
  shows "fst (fetchWithFallback cfg w env ep ps retries s) = Inr payload
     \<and> attempts (trace (snd (fetchWithFallback cfg w env ep ps retries s)))
         = attempts (trace s) @ pre @ [k]
     \<and> waits (trace (snd (fetchWithFallback cfg w env ep ps retries s))) = waits (trace s)
     \<and> fetches (snd (fetchWithFallback cfg w env ep ps retries s)) = fetches s + length pre + 1
     \<and> last (trace (snd (fetchWithFallback cfg w env ep ps retries s))) = Recorded k True
     \<and> (\<exists>s1. snd (fetchWithFallback cfg w env ep ps retries s)
               = recordOutcome k True
                   (real (fst (fetchFromWorker cfg env (fetches s + length pre) k ep ps))) s1)"
proof -
  let ?res = "fetchWithFallback cfg w env ep ps retries s"
  have ok: "snd (fetchFromWorker cfg env (fetches s + length pre) k ep ps) = Inr payload"
    using assms(3-7) by (simp add: fetchFromWorker_success)
  note sw = sweep_first_success [OF assms(2) ok, of post, folded assms(1)]
  from sw have ans: "sweepAnswer cfg env ep ps (allWorkers w) (fetches s) = Some payload"
    by simp
  note fa = fetchWithFallback_answered [OF ans, of retries]
  from fa have r: "fst ?res = Inr payload" by simp
  from fa have st: "snd ?res = snd (tryWorkers cfg env ep ps (allWorkers w) s)" by simp
  have a: "attempts (trace (snd ?res)) = attempts (trace s) @ pre @ [k]"
    using sw by (simp add: st tryWorkers_trace)
  have b: "waits (trace (snd ?res)) = waits (trace s)"
    by (simp add: st tryWorkers_trace)
  have c: "fetches (snd ?res) = fetches s + length pre + 1"
    using sw by (simp add: st tryWorkers_fetches)
  have d: "last (trace (snd ?res)) = Recorded k True"
    using sw by (simp add: st tryWorkers_trace)
  have e: "\<exists>s1. snd ?res = recordOutcome k True
                   (real (fst (fetchFromWorker cfg env (fetches s + length pre) k ep ps))) s1"
    unfolding st assms(1) by (rule tryWorkers_first_success_state [OF assms(2) ok])
  from r a b c d e show ?thesis by blast
qed

text \<open>The third of the six default workers answers: three attempts, its payload returned.\<close>

theorem first_success_witness:
  "fst (fetchWithFallback defaultConfig defaultWorkers thirdAnswers ''/search'' ''q=cats'' 0
          (startRequest (newController defaultWorkers) 0)) = Inr okPayload
   \<and> attempts (trace (snd (fetchWithFallback defaultConfig defaultWorkers thirdAnswers ''/search''
          ''q=cats'' 0 (startRequest (newController defaultWorkers) 0))))
       = [''https://proxy.yoohoo.workers.dev'', ''https://proxy1.yoohoo.workers.dev'',
          ''https://proxy2.yoohoo.workers.dev'']
   \<and> last (trace (snd (fetchWithFallback defaultConfig defaultWorkers thirdAnswers ''/search''
          ''q=cats'' 0 (startRequest (newController defaultWorkers) 0))))
       = Recorded ''https://proxy2.yoohoo.workers.dev'' True"
proof -
  let ?s = "startRequest (newController defaultWorkers) 0"
  let ?pre = "[''https://proxy.yoohoo.workers.dev'', ''https://proxy1.yoohoo.workers.dev'']"
  let ?k = "''https://proxy2.yoohoo.workers.dev''"
  let ?post = "[''https://proxy3.yoohoo.workers.dev'', ''https://proxy4.yoohoo.workers.dev'',
                ''https://proxy5.yoohoo.workers.dev'']"
  have f0: "fetches ?s = 0" "trace ?s = []"
    by (simp_all add: startRequest_def)
  have h1: "allWorkers defaultWorkers = ?pre @ ?k # ?post"
    by (simp add: allWorkers_def defaultWorkers_def)
  have h2: "\<forall>i < length ?pre. isl (snd (fetchFromWorker defaultConfig thirdAnswers (fetches ?s + i)
               (?pre ! i) ''/search'' ''q=cats''))"
    by (simp add: less_Suc_eq fetchFromWorker_def thirdAnswers_def requestUrl_def
        defaultConfig_def Let_def)
  have h3: "settlesAfter (network thirdAnswers (fetches ?s + length ?pre)
               (requestUrl ?k ''/search'' ''q=cats'')) < requestTimeout defaultConfig"
    by (simp add: thirdAnswers_def defaultConfig_def)
  have h4: "reply (network thirdAnswers (fetches ?s + length ?pre)
               (requestUrl ?k ''/search'' ''q=cats'')) = Responds 200 (Some okPayload)"
    by (simp add: thirdAnswers_def)
  have h5: "responseOk 200" "\<not> falsy okPayload" "\<not> emptyObject okPayload"
    by (simp_all add: responseOk_def okPayload_def)
  note t = first_success_short_circuits [OF h1 h2 h3 h4 h5, of 0]
  from t have a: "fst (fetchWithFallback defaultConfig defaultWorkers thirdAnswers ''/search''
      ''q=cats'' 0 ?s) = Inr okPayload"
    by (rule conjunct1)
  from t have b: "attempts (trace (snd (fetchWithFallback defaultConfig defaultWorkers thirdAnswers
      ''/search'' ''q=cats'' 0 ?s))) = attempts (trace ?s) @ ?pre @ [?k]"
    by (rule conjunct1 [OF conjunct2])
  from t have c: "last (trace (snd (fetchWithFallback defaultConfig defaultWorkers thirdAnswers
      ''/search'' ''q=cats'' 0 ?s))) = Recorded ?k True"
    by (rule conjunct1 [OF conjunct2 [OF conjunct2 [OF conjunct2 [OF conjunct2]]]])
  show ?thesis
    using a b c by (simp add: f0)
qed

lemma flakyNetwork_sweepAnswer:
  "sweepAnswer defaultConfig flakyNetwork ''/search'' ''q=cats'' (allWorkers defaultWorkers) 0
     = Some okPayload"
  by (simp add: allWorkers_def defaultWorkers_def fetchFromWorker_def flakyNetwork_def
      defaultConfig_def responseOk_def okPayload_def Let_def)

lemma flakyNetwork_sweepTrace:
  "sweepTrace defaultConfig flakyNetwork ''/search'' ''q=cats'' (allWorkers defaultWorkers) 0
     = [Attempted ''https://proxy.yoohoo.workers.dev'' (Inl TypeError),
        Recorded ''https://proxy.yoohoo.workers.dev'' False,
        Attempted ''https://proxy1.yoohoo.workers.dev'' (Inl AbortError),
        Recorded ''https://proxy1.yoohoo.workers.dev'' False,
        Attempted ''https://proxy2.yoohoo.workers.dev'' (Inl (HttpError 503)),
        Recorded ''https://proxy2.yoohoo.workers.dev'' False,
        Attempted ''https://proxy3.yoohoo.workers.dev'' (Inl SyntaxError),
        Recorded ''https://proxy3.yoohoo.workers.dev'' False,
        Attempted ''https://proxy4.yoohoo.workers.dev'' (Inl EmptyResponse),
        Recorded ''https://proxy4.yoohoo.workers.dev'' False,
        Attempted ''https://proxy5.yoohoo.workers.dev'' (Inr okPayload),
        Recorded ''https://proxy5.yoohoo.workers.dev'' True]"
  by (simp add: allWorkers_def defaultWorkers_def fetchFromWorker_def flakyNetwork_def
      defaultConfig_def responseOk_def okPayload_def Let_def)

lemma fetchWithFallback_answered_trace:
  "sweepAnswer cfg env ep ps (allWorkers w) 0 = Some d \<Longrightarrow>
     fst (fetchWithFallback cfg w env ep ps 0 (startRequest c now)) = Inr d
     \<and> trace (snd (fetchWithFallback cfg w env ep ps 0 (startRequest c now)))
         = sweepTrace cfg env ep ps (allWorkers w) 0"
proof -
  assume a: "sweepAnswer cfg env ep ps (allWorkers w) 0 = Some d"
  have f: "fetches (startRequest c now) = 0" "trace (startRequest c now) = []"
    by (simp_all add: startRequest_def)
  from a have a': "sweepAnswer cfg env ep ps (allWorkers w) (fetches (startRequest c now)) = Some d"
    by (simp add: f)
  from fetchWithFallback_answered [OF a', of 0] show ?thesis
    by (simp add: tryWorkers_trace f)
qed

lemma abortingCaller_network: "network abortingCaller = network thirdAnswers"
  by (simp add: abortingCaller_def)

text \<open>
  Claim C6. The health state has no influence on a request: replacing the controller's
  health map and timers by any other leaves the result and the whole trace of attempts,
  records and waits unchanged. Each sweep attempts the workers in the fixed order primary,
  then the fallbacks as listed, with none skipped: its attempts are a prefix of that list.
  Every sweep that is followed by another is the full list, and so is the last sweep of a
  request that fails; a sweep stops before the last worker only by returning a payload.
\<close>

theorem health_never_gates:
  "fst (fetchWithFallback cfg w env ep ps retries (s\<lparr>ctl := c'\<rparr>))
     = fst (fetchWithFallback cfg w env ep ps retries s)
   \<and> trace (snd (fetchWithFallback cfg w env ep ps retries (s\<lparr>ctl := c'\<rparr>)))
     = trace (snd (fetchWithFallback cfg w env ep ps retries s))
   \<and> (\<forall>sw \<in> set (sweeps (trace (snd (fetchWithFallback cfg w env ep ps 0 (startRequest c now))))).
         prefix sw (allWorkers w))
   \<and> (\<forall>sw \<in> set (butlast (sweeps (trace (snd (fetchWithFallback cfg w env ep ps 0
                                                    (startRequest c now)))))).
         sw = allWorkers w)
   \<and> (isl (fst (fetchWithFallback cfg w env ep ps 0 (startRequest c now)))
        \<longrightarrow> last (sweeps (trace (snd (fetchWithFallback cfg w env ep ps 0 (startRequest c now)))))
              = allWorkers w)"
proof -
  let ?res = "fetchWithFallback cfg w env ep ps 0 (startRequest c now)"
  have rel: "sameButHealth (s\<lparr>ctl := c'\<rparr>) s"
    by (simp add: sameButHealth_def)
  note hb = fetchWithFallback_health_blind [OF rel, of cfg w env ep ps retries]
  from hb have a: "fst (fetchWithFallback cfg w env ep ps retries (s\<lparr>ctl := c'\<rparr>))
     = fst (fetchWithFallback cfg w env ep ps retries s)"
    by (rule conjunct1)
  from hb have b: "trace (snd (fetchWithFallback cfg w env ep ps retries (s\<lparr>ctl := c'\<rparr>)))
     = trace (snd (fetchWithFallback cfg w env ep ps retries s))"
    by (simp add: sameButHealth_def)
  from fetchWithFallback_structure [of cfg w env ep ps 0 "startRequest c now"]
  obtain L where L: "trace (snd ?res) = trace (startRequest c now) @ L"
    "\<forall>sw \<in> set (sweeps L). prefix sw (allWorkers w)"
    "\<forall>sw \<in> set (butlast (sweeps L)). sw = allWorkers w"
    "isl (fst ?res) \<longrightarrow> fst ?res = Inl AllWorkersFailed \<and> last (sweeps L) = allWorkers w
       \<and> (\<forall>u. Recorded u True \<notin> set L)"
    by blast
  from L(1) have tl: "L = trace (snd ?res)"
    by (simp add: startRequest_def)
  note c = L(2) [unfolded tl] and d = L(3) [unfolded tl]
  from L(4) have e: "isl (fst ?res) \<longrightarrow> last (sweeps (trace (snd ?res))) = allWorkers w"
    unfolding tl by blast
  from a b c d e show ?thesis by blast
qed

text \<open>
  A primary worker marked unhealthy by three failures is still attempted first, and the
  sweep is the same as with a fresh health map; on a dead network the last sweep is the
  full list.
\<close>

theorem health_never_gates_witness:
  "\<not> healthy (healthOf (trackerRun [Outcome 0 ''https://proxy.yoohoo.workers.dev'' False 0,
                                    Outcome 1 ''https://proxy.yoohoo.workers.dev'' False 0,
                                    Outcome 2 ''https://proxy.yoohoo.workers.dev'' False 0]
                          (newController defaultWorkers)) ''https://proxy.yoohoo.workers.dev'')
   \<and> sweeps (trace (snd (fetchWithFallback defaultConfig defaultWorkers thirdAnswers ''/search''
        ''q=cats'' 0
        (startRequest (trackerRun [Outcome 0 ''https://proxy.yoohoo.workers.dev'' False 0,
                                   Outcome 1 ''https://proxy.yoohoo.workers.dev'' False 0,
                                   Outcome 2 ''https://proxy.yoohoo.workers.dev'' False 0]
                         (newController defaultWorkers)) 0))))
       = [[''https://proxy.yoohoo.workers.dev'', ''https://proxy1.yoohoo.workers.dev'',
           ''https://proxy2.yoohoo.workers.dev'']]
   \<and> prefix [''https://proxy.yoohoo.workers.dev'', ''https://proxy1.yoohoo.workers.dev'',
              ''https://proxy2.yoohoo.workers.dev''] (allWorkers defaultWorkers)
   \<and> isl (fst (fetchWithFallback defaultConfig defaultWorkers deadNetwork ''/search'' ''q=cats'' 0
                  (startRequest (newController defaultWorkers) 0)))
   \<and> last (sweeps (trace (snd (fetchWithFallback defaultConfig defaultWorkers deadNetwork
        ''/search'' ''q=cats'' 0 (startRequest (newController defaultWorkers) 0)))))
       = allWorkers defaultWorkers"
proof -
  define sick where "sick = trackerRun [Outcome 0 ''https://proxy.yoohoo.workers.dev'' False 0,
                                   Outcome 1 ''https://proxy.yoohoo.workers.dev'' False 0,
                                   Outcome 2 ''https://proxy.yoohoo.workers.dev'' False 0]
                         (newController defaultWorkers)"
  let ?fresh = "startRequest (newController defaultWorkers) 0"
  have unhealthy: "\<not> healthy (healthOf sick ''https://proxy.yoohoo.workers.dev'')"
    by (simp add: sick_def trackerRun_def healthOf_update healthOf_newController onFailure_def
        Let_def initialHealth_def)
  have st: "?fresh\<lparr>ctl := sick\<rparr> = startRequest sick 0"
    by (simp add: startRequest_def)
  note t = health_never_gates [where cfg = defaultConfig and w = defaultWorkers
      and env = thirdAnswers and ep = "''/search''" and ps = "''q=cats''" and retries = 0
      and s = ?fresh and c' = sick and c = "newController defaultWorkers" and now = 0,
      unfolded st]
  from t have same: "trace (snd (fetchWithFallback defaultConfig defaultWorkers thirdAnswers
      ''/search'' ''q=cats'' 0 (startRequest sick 0)))
    = trace (snd (fetchWithFallback defaultConfig defaultWorkers thirdAnswers
      ''/search'' ''q=cats'' 0 ?fresh))"
    by (rule conjunct1 [OF conjunct2])
  have tr: "trace (snd (fetchWithFallback defaultConfig defaultWorkers thirdAnswers
      ''/search'' ''q=cats'' 0 ?fresh))
    = sweepTrace defaultConfig thirdAnswers ''/search'' ''q=cats'' (allWorkers defaultWorkers) 0"
    using fetchWithFallback_answered_trace [OF thirdAnswers_sweepAnswer] by blast
  have a: "sweeps (trace (snd (fetchWithFallback defaultConfig defaultWorkers thirdAnswers
      ''/search'' ''q=cats'' 0 (startRequest sick 0))))
    = [[''https://proxy.yoohoo.workers.dev'', ''https://proxy1.yoohoo.workers.dev'',
           ''https://proxy2.yoohoo.workers.dev'']]"
    by (simp add: same tr thirdAnswers_sweepTrace)
  have b: "prefix [''https://proxy.yoohoo.workers.dev'', ''https://proxy1.yoohoo.workers.dev'',
              ''https://proxy2.yoohoo.workers.dev''] (allWorkers defaultWorkers)"
    by (simp add: allWorkers_def defaultWorkers_def)
  have m: "0 \<le> maxRetries defaultConfig"
    by (simp add: defaultConfig_def)
  from fetchWithFallback_all_fail [OF deadNetwork_fails m, of defaultWorkers "''/search''"
      "''q=cats''" ?fresh]
  have c: "isl (fst (fetchWithFallback defaultConfig defaultWorkers deadNetwork ''/search''
      ''q=cats'' 0 ?fresh))"
    by simp
  note t2 = health_never_gates [where cfg = defaultConfig and w = defaultWorkers
      and env = deadNetwork and ep = "''/search''" and ps = "''q=cats''" and retries = 0
      and s = ?fresh and c' = sick and c = "newController defaultWorkers" and now = 0]
  from t2 c have d: "last (sweeps (trace (snd (fetchWithFallback defaultConfig defaultWorkers
      deadNetwork ''/search'' ''q=cats'' 0 ?fresh)))) = allWorkers defaultWorkers"
    by blast
  show ?thesis
    unfolding sick_def [symmetric]
    using unhealthy a b c d by blast
qed

lemma replay_append:
  "replay cfg env ep ps (xs @ ys) v = replay cfg env ep ps ys (replay cfg env ep ps xs v)"
  by (induction cfg env ep ps xs v rule: replay.induct) (simp_all add: Let_def)

lemma genuine_append:
  "genuine cfg env ep ps n (xs @ ys)
     = (genuine cfg env ep ps n xs \<and> genuine cfg env ep ps (n + length (attempts xs)) ys)"
  by (induction cfg env ep ps n xs rule: genuine.induct) simp_all

lemma fetchTimes_append:
  "fetchTimes cfg env ep ps n (us @ vs)
     = fetchTimes cfg env ep ps n us + fetchTimes cfg env ep ps (n + length us) vs"
  by (induction us arbitrary: n) simp_all

lemma genuine_sweepTrace: "genuine cfg env ep ps n (sweepTrace cfg env ep ps ws n)"
  by (induction ws arbitrary: n) (simp_all add: Let_def)

lemma outcomeOf_sweepTrace:
  "outcomeOf (sweepTrace cfg env ep ps ws n)
     = (case sweepAnswer cfg env ep ps ws n of Some d \<Rightarrow> Inr d | None \<Rightarrow> Inl AllWorkersFailed)"
  by (induction ws arbitrary: n) (auto simp: Let_def split: sum.splits)

lemma outcomeOf_failed_sweep:
  "sweepAnswer cfg env ep ps ws n = None \<Longrightarrow>
     outcomeOf (sweepTrace cfg env ep ps ws n @ ys) = outcomeOf ys"
  by (induction ws arbitrary: n) (auto simp: Let_def split: sum.splits)

lemma view_eqI:
  "atCtl v = ctl s \<Longrightarrow> atClock v = clock s \<Longrightarrow> atFetch v = fetches s \<Longrightarrow>
     v = viewOf s (lastTook v)"
  by (cases v) (simp add: viewOf_def)

lemma tryWorkers_replay:
  "\<exists>e'. replay cfg env ep ps (sweepTrace cfg env ep ps ws (fetches s)) (viewOf s e)
           = viewOf (snd (tryWorkers cfg env ep ps ws s)) e'"
proof (induction ws arbitrary: s e)
  case Nil
  show ?case by (rule exI [of _ e]) simp
next
  case (Cons a ws)
  let ?out = "fetchFromWorker cfg env (fetches s) a ep ps"
  let ?s1 = "elapse (fst ?out)
                 (noteAbort (abortDuringFetch env (fetches s))
                    (s\<lparr>fetches := fetches s + 1,
                       trace := trace s @ [Attempted a (snd ?out)]\<rparr>))"
  show ?case
  proof (cases "snd ?out")
    case (Inl err)
    let ?s2 = "recordOutcome a False 0 ?s1"
    have step: "tryWorkers cfg env ep ps (a # ws) s = tryWorkers cfg env ep ps ws ?s2"
      by (simp add: Inl Let_def)
    have f2: "fetches ?s2 = Suc (fetches s)" by simp
    have v: "replay cfg env ep ps (sweepTrace cfg env ep ps (a # ws) (fetches s)) (viewOf s e)
        = replay cfg env ep ps (sweepTrace cfg env ep ps ws (fetches ?s2)) (viewOf ?s2 (fst ?out))"
      by (simp add: Inl Let_def viewOf_def)
    from Cons.IH [of ?s2 "fst ?out"] show ?thesis
      unfolding v step .
  next
    case (Inr d)
    show ?thesis
      by (rule exI [of _ "fst ?out"]) (simp add: Inr Let_def viewOf_def)
  qed
qed

lemma fetchWithFallback_replay:
  "\<exists>L. trace (snd (fetchWithFallback cfg w env ep ps retries s)) = trace s @ L
       \<and> genuine cfg env ep ps (fetches s) L
       \<and> fst (fetchWithFallback cfg w env ep ps retries s) = outcomeOf L
       \<and> (\<forall>e. \<exists>e'. replay cfg env ep ps L (viewOf s e)
                      = viewOf (snd (fetchWithFallback cfg w env ep ps retries s)) e')"
proof (induction cfg w env ep ps retries s rule: fetchWithFallback.induct)
  case (1 cfg w env ep ps retries s)
  let ?ws = "allWorkers w"
  let ?r = "tryWorkers cfg env ep ps ?ws s"
  let ?A = "sweepTrace cfg env ep ps ?ws (fetches s)"
  show ?case
  proof (cases "fst ?r = None \<and> retries < maxRetries cfg")
    case True
    then have a: "fst ?r = None" and b: "retries < maxRetries cfg" by simp_all
    define d where "d = 1000 * (retries + 1)"
    let ?s1 = "delay d (noteAbort (abortDuringDelay env retries) (snd ?r))"
    let ?res = "fetchWithFallback cfg w env ep ps (retries + 1) ?s1"
    have unfold: "fetchWithFallback cfg w env ep ps retries s = ?res"
      unfolding d_def by (rule fetchWithFallback_retry [OF a b])
    from a have none: "sweepAnswer cfg env ep ps ?ws (fetches s) = None"
      by (simp add: tryWorkers_answer)
    from "1.IH" [OF refl a b, folded d_def] obtain L where
      L: "trace (snd ?res) = trace ?s1 @ L"
         "genuine cfg env ep ps (fetches ?s1) L"
         "fst ?res = outcomeOf L"
         "\<forall>e. \<exists>e'. replay cfg env ep ps L (viewOf ?s1 e) = viewOf (snd ?res) e'"
      by blast
    let ?L = "?A @ Waited d # L"
    have c1: "trace (snd ?res) = trace s @ ?L"
      using L(1) by (simp add: tryWorkers_trace)
    have f1: "fetches ?s1 = fetches s + length (attempts ?A)"
      by (simp add: tryWorkers_fetches)
    have c2: "genuine cfg env ep ps (fetches s) ?L"
      using L(2) unfolding f1 by (simp add: genuine_append genuine_sweepTrace)
    have c3: "fst ?res = outcomeOf ?L"
      by (simp add: L(3) outcomeOf_failed_sweep [OF none])
    have c4: "\<forall>e. \<exists>e'. replay cfg env ep ps ?L (viewOf s e) = viewOf (snd ?res) e'"
    proof
      fix e
      from tryWorkers_replay [of cfg env ep ps ?ws s e] obtain e1 where
        e1: "replay cfg env ep ps ?A (viewOf s e) = viewOf (snd ?r) e1"
        by blast
      have w: "replay cfg env ep ps (Waited d # L) (viewOf (snd ?r) e1)
          = replay cfg env ep ps L (viewOf ?s1 e1)"
        by (simp add: viewOf_def)
      from L(4) obtain e' where "replay cfg env ep ps L (viewOf ?s1 e1) = viewOf (snd ?res) e'"
        by blast
      then have "replay cfg env ep ps ?L (viewOf s e) = viewOf (snd ?res) e'"
        by (simp only: replay_append e1 w)
      then show "\<exists>e'. replay cfg env ep ps ?L (viewOf s e) = viewOf (snd ?res) e'"
        by blast
    qed
    show ?thesis
      unfolding unfold
      using c1 c2 c3 c4 by blast
  next
    case False
    have c3: "fst (fetchWithFallback cfg w env ep ps retries s) = outcomeOf ?A"
      by (simp add: fetchWithFallback_stop [OF False] outcomeOf_sweepTrace tryWorkers_answer)
    have c4: "\<forall>e. \<exists>e'. replay cfg env ep ps ?A (viewOf s e)
          = viewOf (snd (fetchWithFallback cfg w env ep ps retries s)) e'"
      by (simp add: fetchWithFallback_stop [OF False] tryWorkers_replay)
    have c1: "trace (snd (fetchWithFallback cfg w env ep ps retries s)) = trace s @ ?A"
      by (simp add: fetchWithFallback_stop [OF False] tryWorkers_trace)
    from c1 genuine_sweepTrace [of cfg env ep ps "fetches s" ?ws] c3 c4 show ?thesis
      by blast
  qed
qed

lemma replay_clock:
  "atClock (replay cfg env ep ps L v)
     = atClock v + fetchTimes cfg env ep ps (atFetch v) (attempts L) + sum_list (map nat (waits L))
   \<and> atFetch (replay cfg env ep ps L v) = atFetch v + length (attempts L)"
  by (induction cfg env ep ps L v rule: replay.induct) (simp_all add: Let_def)

lemma fetchWithFallback_from_start:
  "genuine cfg env ep ps 0 (trace (snd (fetchWithFallback cfg w env ep ps 0 (startRequest c now))))
   \<and> fst (fetchWithFallback cfg w env ep ps 0 (startRequest c now))
       = outcomeOf (trace (snd (fetchWithFallback cfg w env ep ps 0 (startRequest c now))))
   \<and> atCtl (replay cfg env ep ps
              (trace (snd (fetchWithFallback cfg w env ep ps 0 (startRequest c now))))
              \<lparr>atCtl = c, atClock = now, atFetch = 0, lastTook = 0\<rparr>)
       = ctl (snd (fetchWithFallback cfg w env ep ps 0 (startRequest c now)))
   \<and> atClock (replay cfg env ep ps
              (trace (snd (fetchWithFallback cfg w env ep ps 0 (startRequest c now))))
              \<lparr>atCtl = c, atClock = now, atFetch = 0, lastTook = 0\<rparr>)
       = clock (snd (fetchWithFallback cfg w env ep ps 0 (startRequest c now)))
   \<and> atFetch (replay cfg env ep ps
              (trace (snd (fetchWithFallback cfg w env ep ps 0 (startRequest c now))))
              \<lparr>atCtl = c, atClock = now, atFetch = 0, lastTook = 0\<rparr>)
       = fetches (snd (fetchWithFallback cfg w env ep ps 0 (startRequest c now)))"
proof -
  let ?s = "startRequest c now"
  let ?res = "fetchWithFallback cfg w env ep ps 0 ?s"
  have v0: "viewOf ?s 0 = \<lparr>atCtl = c, atClock = now, atFetch = 0, lastTook = 0\<rparr>"
    by (simp add: viewOf_def startRequest_def)
  from fetchWithFallback_replay [of cfg w env ep ps 0 ?s] obtain L where
    L: "trace (snd ?res) = trace ?s @ L" "genuine cfg env ep ps (fetches ?s) L"
       "fst ?res = outcomeOf L"
       "\<forall>e. \<exists>e'. replay cfg env ep ps L (viewOf ?s e) = viewOf (snd ?res) e'"
    by blast
  from L(1) have tl: "L = trace (snd ?res)"
    by (simp add: startRequest_def)
  from L(2) have a: "genuine cfg env ep ps 0 (trace (snd ?res))"
    unfolding tl by (simp add: startRequest_def)
  note b = L(3) [unfolded tl]
  from L(4) obtain e' where "replay cfg env ep ps L (viewOf ?s 0) = viewOf (snd ?res) e'"
    by blast
  then have r: "replay cfg env ep ps (trace (snd ?res))
      \<lparr>atCtl = c, atClock = now, atFetch = 0, lastTook = 0\<rparr> = viewOf (snd ?res) e'"
    unfolding tl v0 .
  show ?thesis
    using a b by (simp add: r viewOf_def)
qed

lemma deadNetwork_fetchTimes:
  "fetchTimes defaultConfig deadNetwork ep ps n us = 10 * length us"
  by (induction us arbitrary: n)
     (simp_all add: fetchFromWorker_def deadNetwork_def defaultConfig_def)

text \<open>
  Claim C7. The delays of a request, in order, are 1000 * 1, 1000 * 2, ... milliseconds:
  the wait before retry sweep \<open>N\<close> is \<open>1000 * N\<close>, and each wait separates two
  sweeps; when every attempt fails there are \<open>maxRetries\<close> of them. The waits are
  really waited: a delay of \<open>1000 * N\<close> advances the clock by that much and lets the
  timers due by then run, the clock at the end of a request is its start plus the time
  of its fetches plus the sum of its waits, and after a failed sweep with
  \<open>retries < maxRetries\<close> the request goes on as retry \<open>retries + 1\<close> from the state
  reached by the delay of \<open>1000 * (retries + 1)\<close>.
\<close>

theorem backoff_is_linear:
  "waits (trace (snd (fetchWithFallback cfg w env ep ps 0 (startRequest c now))))
     = map (\<lambda>N. 1000 * N)
         [1..int (length (waits (trace (snd (fetchWithFallback cfg w env ep ps 0 (startRequest c now))))))]
   \<and> length (sweeps (trace (snd (fetchWithFallback cfg w env ep ps 0 (startRequest c now)))))
     = Suc (length (waits (trace (snd (fetchWithFallback cfg w env ep ps 0 (startRequest c now))))))
   \<and> ((\<forall>n. \<forall>u \<in> set (allWorkers w). isl (snd (fetchFromWorker cfg env n u ep ps)))
         \<and> 0 \<le> maxRetries cfg
       \<longrightarrow> waits (trace (snd (fetchWithFallback cfg w env ep ps 0 (startRequest c now))))
             = map (\<lambda>N. 1000 * N) [1..maxRetries cfg])
   \<and> clock (delay (1000 * N) s) = clock s + nat (1000 * N)
   \<and> ctl (delay (1000 * N) s) = runTimers (clock s + nat (1000 * N)) (ctl s)
   \<and> clock (snd (fetchWithFallback cfg w env ep ps 0 (startRequest c now)))
     = now
       + fetchTimes cfg env ep ps 0
           (attempts (trace (snd (fetchWithFallback cfg w env ep ps 0 (startRequest c now)))))
       + sum_list (map nat
           (waits (trace (snd (fetchWithFallback cfg w env ep ps 0 (startRequest c now))))))
   \<and> (fst (tryWorkers cfg env ep ps (allWorkers w) s) = None \<and> retries < maxRetries cfg
       \<longrightarrow> fetchWithFallback cfg w env ep ps retries s
             = fetchWithFallback cfg w env ep ps (retries + 1)
                 (delay (1000 * (retries + 1))
                    (noteAbort (abortDuringDelay env retries)
                       (snd (tryWorkers cfg env ep ps (allWorkers w) s)))))"
proof -
  let ?res = "fetchWithFallback cfg w env ep ps 0 (startRequest c now)"
  have t0: "trace (startRequest c now) = []"
    by (simp add: startRequest_def)
  from fetchWithFallback_waits [of cfg w env ep ps 0 "startRequest c now"]
  obtain k where "waits (trace (snd ?res))
      = waits (trace (startRequest c now)) @ map (\<lambda>N. 1000 * N) [0 + 1..0 + int k]"
    by blast
  then have k: "waits (trace (snd ?res)) = map (\<lambda>N. 1000 * N) [1..int k]"
    by (simp add: t0)
  then have "length (waits (trace (snd ?res))) = k"
    by simp
  with k have a: "waits (trace (snd ?res))
      = map (\<lambda>N. 1000 * N) [1..int (length (waits (trace (snd ?res))))]"
    by simp
  have b: "(\<forall>n. \<forall>u \<in> set (allWorkers w). isl (snd (fetchFromWorker cfg env n u ep ps)))
         \<and> 0 \<le> maxRetries cfg
       \<longrightarrow> waits (trace (snd ?res)) = map (\<lambda>N. 1000 * N) [1..maxRetries cfg]"
  proof
    assume h: "(\<forall>n. \<forall>u \<in> set (allWorkers w). isl (snd (fetchFromWorker cfg env n u ep ps)))
         \<and> 0 \<le> maxRetries cfg"
    then have h1: "\<forall>n. \<forall>u \<in> set (allWorkers w). isl (snd (fetchFromWorker cfg env n u ep ps))"
      and h2: "0 \<le> maxRetries cfg" by simp_all
    from fetchWithFallback_all_fail [OF h1 h2, of "startRequest c now"]
    show "waits (trace (snd ?res)) = map (\<lambda>N. 1000 * N) [1..maxRetries cfg]"
      by (simp add: t0)
  qed
  from fetchWithFallback_from_start [of cfg env ep ps w c now]
  have "atClock (replay cfg env ep ps (trace (snd ?res))
              \<lparr>atCtl = c, atClock = now, atFetch = 0, lastTook = 0\<rparr>) = clock (snd ?res)"
    by blast
  then have d: "clock (snd ?res) = now + fetchTimes cfg env ep ps 0 (attempts (trace (snd ?res)))
       + sum_list (map nat (waits (trace (snd ?res))))"
    by (simp add: replay_clock)
  have e: "fst (tryWorkers cfg env ep ps (allWorkers w) s) = None \<and> retries < maxRetries cfg
       \<longrightarrow> fetchWithFallback cfg w env ep ps retries s
             = fetchWithFallback cfg w env ep ps (retries + 1)
                 (delay (1000 * (retries + 1))
                    (noteAbort (abortDuringDelay env retries)
                       (snd (tryWorkers cfg env ep ps (allWorkers w) s))))"
    using fetchWithFallback_retry [of cfg env ep ps w s retries] by blast
  have f: "length (sweeps (trace (snd ?res))) = Suc (length (waits (trace (snd ?res))))"
    by (rule length_sweeps)
  have g: "clock (delay (1000 * N) s) = clock s + nat (1000 * N)"
    "ctl (delay (1000 * N) s) = runTimers (clock s + nat (1000 * N)) (ctl s)"
    by simp_all
  from a f b g d e show ?thesis
    by blast
qed

text \<open>
  With the default configuration and a dead network whose fetches take 10 ms each, the
  waits are 1 s, 2 s and 3 s and the request ends at 24 * 10 + 6000 = 6240 ms.
\<close>

theorem backoff_is_linear_witness:
  "waits (trace (snd (fetchWithFallback defaultConfig defaultWorkers deadNetwork ''/search''
          ''q=cats'' 0 (startRequest (newController defaultWorkers) 0)))) = [1000, 2000, 3000]
   \<and> clock (snd (fetchWithFallback defaultConfig defaultWorkers deadNetwork ''/search''
          ''q=cats'' 0 (startRequest (newController defaultWorkers) 0))) = 6240"
proof -
  let ?s = "startRequest (newController defaultWorkers) 0"
  let ?res = "fetchWithFallback defaultConfig defaultWorkers deadNetwork ''/search'' ''q=cats'' 0 ?s"
  have m: "0 \<le> maxRetries defaultConfig"
    by (simp add: defaultConfig_def)
  have u: "[1..maxRetries defaultConfig] = [1, 2, 3]"
    by (simp add: defaultConfig_def upto_rec1)
  note t = backoff_is_linear [where cfg = defaultConfig and w = defaultWorkers
      and env = deadNetwork and ep = "''/search''" and ps = "''q=cats''"
      and c = "newController defaultWorkers" and now = 0 and N = 1 and s = ?s and retries = 0]
  from t deadNetwork_fails m
  have "waits (trace (snd ?res)) = map (\<lambda>N. 1000 * N) [1..maxRetries defaultConfig]"
    by blast
  then have a: "waits (trace (snd ?res)) = [1000, 2000, 3000]"
    by (simp add: u)
  from t have b: "clock (snd ?res) = 0
       + fetchTimes defaultConfig deadNetwork ''/search'' ''q=cats'' 0 (attempts (trace (snd ?res)))
       + sum_list (map nat (waits (trace (snd ?res))))"
    by blast
  from fetchWithFallback_all_fail [OF deadNetwork_fails m, of defaultWorkers "''/search''"
      "''q=cats''" ?s]
  have "attempts (trace (snd ?res))
      = attempts (trace ?s) @ concat (replicate (Suc (nat (maxRetries defaultConfig - 0)))
          (allWorkers defaultWorkers))"
    by blast
  then have "length (attempts (trace (snd ?res))) = 24"
    by (simp add: startRequest_def length_concat sum_list_replicate allWorkers_def
        defaultWorkers_def defaultConfig_def)
  with a b have "clock (snd ?res) = 6240"
    by (simp add: deadNetwork_fetchTimes)
  with a show ?thesis by blast
qed

text \<open>
  Claim C9. A request rejects with no error other than \<open>All workers failed\<close>, and it
  does so exactly when no attempt succeeded: its result is the payload of the first
  successful attempt of its trace, or that error. The results noted in the trace are
  those \<open>fetchFromWorker\<close> gave, and an attempt is rejected unless the fetch settles
  before the timeout with a success status and a body that parses to a truthy, non-empty
  value: so a connection error, a timeout, a non-success status, and an unparsable or
  empty body are all such failures. Every attempt is followed at once by the record of
  its outcome for the same worker, a failure exactly when the attempt was rejected, and
  the request goes on after it: each sweep attempts the workers in order with none left
  out, in full unless it returns a payload. The records are calls of
  \<open>updateWorkerStatus\<close>: the health state after the request is the one obtained by
  replaying its trace on the tracker, and recording a failure adds 1 to the worker's
  failure credit. In the loop itself, when the attempt at a worker is rejected, the run
  is the run over the remaining workers from the state in which that failure has been
  recorded.
\<close>

theorem endpoint_failures_absorbed:
  "(isl (fst (fetchWithFallback cfg w env ep ps 0 (startRequest c now)))
      \<longrightarrow> fst (fetchWithFallback cfg w env ep ps 0 (startRequest c now)) = Inl AllWorkersFailed)
   \<and> absorbed (trace (snd (fetchWithFallback cfg w env ep ps 0 (startRequest c now))))
   \<and> isl (fst (fetchWithFallback cfg w env ep ps 0 (startRequest c now)))
       = (\<forall>u. Recorded u True
                \<notin> set (trace (snd (fetchWithFallback cfg w env ep ps 0 (startRequest c now)))))
   \<and> isl (snd (fetchFromWorker cfg env n u ep ps))
       = (\<not> (settlesAfter (network env n (requestUrl u ep ps)) < requestTimeout cfg
             \<and> (\<exists>st d. reply (network env n (requestUrl u ep ps)) = Responds st (Some d)
                       \<and> responseOk st \<and> \<not> falsy d \<and> \<not> emptyObject d)))
   \<and> errorCount (healthOf (ctl (recordOutcome u False 0 s)) u)
       = errorCount (healthOf (ctl s) u) + 1
   \<and> genuine cfg env ep ps 0
        (trace (snd (fetchWithFallback cfg w env ep ps 0 (startRequest c now))))
   \<and> fst (fetchWithFallback cfg w env ep ps 0 (startRequest c now))
       = outcomeOf (trace (snd (fetchWithFallback cfg w env ep ps 0 (startRequest c now))))
   \<and> (\<forall>sw \<in> set (sweeps (trace (snd (fetchWithFallback cfg w env ep ps 0 (startRequest c now))))).
         prefix sw (allWorkers w))
   \<and> (\<forall>sw \<in> set (butlast (sweeps (trace (snd (fetchWithFallback cfg w env ep ps 0
                                                    (startRequest c now)))))).
         sw = allWorkers w)
   \<and> (isl (fst (fetchWithFallback cfg w env ep ps 0 (startRequest c now)))
        \<longrightarrow> last (sweeps (trace (snd (fetchWithFallback cfg w env ep ps 0 (startRequest c now)))))
              = allWorkers w)
   \<and> ctl (snd (fetchWithFallback cfg w env ep ps 0 (startRequest c now)))
       = atCtl (replay cfg env ep ps
                  (trace (snd (fetchWithFallback cfg w env ep ps 0 (startRequest c now))))
                  \<lparr>atCtl = c, atClock = now, atFetch = 0, lastTook = 0\<rparr>)
   \<and> (isl (snd (fetchFromWorker cfg env (fetches s) u ep ps))
        \<longrightarrow> tryWorkers cfg env ep ps (u # rest) s
              = tryWorkers cfg env ep ps rest
                  (recordOutcome u False 0
                     (elapse (fst (fetchFromWorker cfg env (fetches s) u ep ps))
                        (noteAbort (abortDuringFetch env (fetches s))
                           (s\<lparr>fetches := fetches s + 1,
                              trace := trace s
                                @ [Attempted u (snd (fetchFromWorker cfg env (fetches s) u ep ps))]\<rparr>)))))
   \<and> ctl (recordOutcome u b rt s) = updateWorkerStatus (clock s) u b rt (ctl s)"
proof -
  let ?res = "fetchWithFallback cfg w env ep ps 0 (startRequest c now)"
  from fetchWithFallback_structure [of cfg w env ep ps 0 "startRequest c now"]
  obtain L where L: "trace (snd ?res) = trace (startRequest c now) @ L"
    "absorbed L"
    "\<forall>sw \<in> set (sweeps L). prefix sw (allWorkers w)"
    "\<forall>sw \<in> set (butlast (sweeps L)). sw = allWorkers w"
    "isl (fst ?res) \<longrightarrow> fst ?res = Inl AllWorkersFailed \<and> last (sweeps L) = allWorkers w
       \<and> (\<forall>u. Recorded u True \<notin> set L)"
    "\<not> isl (fst ?res) \<longrightarrow> (\<exists>u. Recorded u True \<in> set L)"
    by blast
  from L(1) have tl: "L = trace (snd ?res)"
    by (simp add: startRequest_def)
  from L(5) have c1: "isl (fst ?res) \<longrightarrow> fst ?res = Inl AllWorkersFailed"
    by blast
  note c2 = L(2) [unfolded tl]
  from L(5) L(6) have c3: "isl (fst ?res) = (\<forall>u. Recorded u True \<notin> set (trace (snd ?res)))"
    unfolding tl by blast
  have c4: "isl (snd (fetchFromWorker cfg env n u ep ps))
       = (\<not> (settlesAfter (network env n (requestUrl u ep ps)) < requestTimeout cfg
             \<and> (\<exists>st d. reply (network env n (requestUrl u ep ps)) = Responds st (Some d)
                       \<and> responseOk st \<and> \<not> falsy d \<and> \<not> emptyObject d)))"
    by (auto simp: fetchFromWorker_def Let_def split: net_reply.splits option.splits)
  have c5: "errorCount (healthOf (ctl (recordOutcome u False 0 s)) u)
       = errorCount (healthOf (ctl s) u) + 1"
    by (simp add: healthOf_update onFailure_def Let_def)
  note fs = fetchWithFallback_from_start [of cfg env ep ps w c now]
  from fs have c6: "genuine cfg env ep ps 0 (trace (snd ?res))"
    by blast
  from fs have c7: "fst ?res = outcomeOf (trace (snd ?res))"
    by blast
  note c8 = L(3) [unfolded tl] and c9 = L(4) [unfolded tl]
  from L(5) have c10: "isl (fst ?res) \<longrightarrow> last (sweeps (trace (snd ?res))) = allWorkers w"
    unfolding tl by blast
  from fs have c11: "ctl (snd ?res) = atCtl (replay cfg env ep ps (trace (snd ?res))
                  \<lparr>atCtl = c, atClock = now, atFetch = 0, lastTook = 0\<rparr>)"
    by simp
  have c12: "isl (snd (fetchFromWorker cfg env (fetches s) u ep ps))
        \<longrightarrow> tryWorkers cfg env ep ps (u # rest) s
              = tryWorkers cfg env ep ps rest
                  (recordOutcome u False 0
                     (elapse (fst (fetchFromWorker cfg env (fetches s) u ep ps))
                        (noteAbort (abortDuringFetch env (fetches s))
                           (s\<lparr>fetches := fetches s + 1,
                              trace := trace s
                                @ [Attempted u (snd (fetchFromWorker cfg env (fetches s) u ep ps))]\<rparr>))))"
    by (cases "snd (fetchFromWorker cfg env (fetches s) u ep ps)") (simp_all add: Let_def)
  have c13: "ctl (recordOutcome u b rt s) = updateWorkerStatus (clock s) u b rt (ctl s)"
    by simp
  from c1 c2 c3 c4 c5 c6 c7 c8 c9 c10 c11 c12 c13 show ?thesis
    by blast
qed

text \<open>
  One sweep meeting a connection error, a timeout, status 503, an unparsable body and an
  empty object in turn: each is recorded as a failure (the second worker then has failure
  credit 1 and was last checked at 10 + 15000 ms) and the sixth worker's payload is
  returned; on a dead network the only error is the aggregate one.
\<close>

theorem endpoint_failures_absorbed_witness:
  "fst (fetchWithFallback defaultConfig defaultWorkers flakyNetwork ''/search'' ''q=cats'' 0
          (startRequest (newController defaultWorkers) 0)) = Inr okPayload
   \<and> trace (snd (fetchWithFallback defaultConfig defaultWorkers flakyNetwork ''/search''
          ''q=cats'' 0 (startRequest (newController defaultWorkers) 0)))
       = [Attempted ''https://proxy.yoohoo.workers.dev'' (Inl TypeError),
          Recorded ''https://proxy.yoohoo.workers.dev'' False,
          Attempted ''https://proxy1.yoohoo.workers.dev'' (Inl AbortError),
          Recorded ''https://proxy1.yoohoo.workers.dev'' False,
          Attempted ''https://proxy2.yoohoo.workers.dev'' (Inl (HttpError 503)),
          Recorded ''https://proxy2.yoohoo.workers.dev'' False,
          Attempted ''https://proxy3.yoohoo.workers.dev'' (Inl SyntaxError),
          Recorded ''https://proxy3.yoohoo.workers.dev'' False,
          Attempted ''https://proxy4.yoohoo.workers.dev'' (Inl EmptyResponse),
          Recorded ''https://proxy4.yoohoo.workers.dev'' False,
          Attempted ''https://proxy5.yoohoo.workers.dev'' (Inr okPayload),
          Recorded ''https://proxy5.yoohoo.workers.dev'' True]
   \<and> absorbed (trace (snd (fetchWithFallback defaultConfig defaultWorkers flakyNetwork ''/search''
          ''q=cats'' 0 (startRequest (newController defaultWorkers) 0))))
   \<and> errorCount (healthOf (ctl (snd (fetchWithFallback defaultConfig defaultWorkers flakyNetwork
          ''/search'' ''q=cats'' 0 (startRequest (newController defaultWorkers) 0))))
          ''https://proxy1.yoohoo.workers.dev'') = 1
   \<and> lastCheck (healthOf (ctl (snd (fetchWithFallback defaultConfig defaultWorkers flakyNetwork
          ''/search'' ''q=cats'' 0 (startRequest (newController defaultWorkers) 0))))
          ''https://proxy1.yoohoo.workers.dev'') = 15010
   \<and> successCount (healthOf (ctl (snd (fetchWithFallback defaultConfig defaultWorkers flakyNetwork
          ''/search'' ''q=cats'' 0 (startRequest (newController defaultWorkers) 0))))
          ''https://proxy5.yoohoo.workers.dev'') = 1
   \<and> fst (fetchWithFallback defaultConfig defaultWorkers deadNetwork ''/search'' ''q=cats'' 0
          (startRequest (newController defaultWorkers) 0)) = Inl AllWorkersFailed"
proof -
  let ?fresh = "startRequest (newController defaultWorkers) 0"
  let ?res = "fetchWithFallback defaultConfig defaultWorkers flakyNetwork ''/search'' ''q=cats'' 0
      ?fresh"
  note ev = fetchWithFallback_answered_trace [OF flakyNetwork_sweepAnswer,
      of "newController defaultWorkers" 0]
  from ev have a: "fst ?res = Inr okPayload"
    by (rule conjunct1)
  from ev have "trace (snd ?res)
      = sweepTrace defaultConfig flakyNetwork ''/search'' ''q=cats'' (allWorkers defaultWorkers) 0"
    by (rule conjunct2)
  then have b: "trace (snd ?res)
       = [Attempted ''https://proxy.yoohoo.workers.dev'' (Inl TypeError),
          Recorded ''https://proxy.yoohoo.workers.dev'' False,
          Attempted ''https://proxy1.yoohoo.workers.dev'' (Inl AbortError),
          Recorded ''https://proxy1.yoohoo.workers.dev'' False,
          Attempted ''https://proxy2.yoohoo.workers.dev'' (Inl (HttpError 503)),
          Recorded ''https://proxy2.yoohoo.workers.dev'' False,
          Attempted ''https://proxy3.yoohoo.workers.dev'' (Inl SyntaxError),
          Recorded ''https://proxy3.yoohoo.workers.dev'' False,
          Attempted ''https://proxy4.yoohoo.workers.dev'' (Inl EmptyResponse),
          Recorded ''https://proxy4.yoohoo.workers.dev'' False,
          Attempted ''https://proxy5.yoohoo.workers.dev'' (Inr okPayload),
          Recorded ''https://proxy5.yoohoo.workers.dev'' True]"
    by (simp only: flakyNetwork_sweepTrace)
  note t = endpoint_failures_absorbed [where cfg = defaultConfig and w = defaultWorkers
      and env = flakyNetwork and ep = "''/search''" and ps = "''q=cats''"
      and c = "newController defaultWorkers" and now = 0 and n = 0 and u = "''x''" and s = ?fresh
      and rest = "[]" and b = False and rt = 0]
  from t have c: "absorbed (trace (snd ?res))"
    by (rule conjunct1 [OF conjunct2])
  from t have h: "ctl (snd ?res) = atCtl (replay defaultConfig flakyNetwork ''/search'' ''q=cats''
      (trace (snd ?res))
      \<lparr>atCtl = newController defaultWorkers, atClock = 0, atFetch = 0, lastTook = 0\<rparr>)"
    by blast
  have h1: "errorCount (healthOf (ctl (snd ?res)) ''https://proxy1.yoohoo.workers.dev'') = 1"
    unfolding h b
    by (simp add: Let_def fetchFromWorker_def flakyNetwork_def defaultConfig_def responseOk_def
        okPayload_def healthOf_update healthOf_update_other healthOf_runTimers
        healthOf_newController onFailure_def onSuccess_def initialHealth_def)
  have h2: "lastCheck (healthOf (ctl (snd ?res)) ''https://proxy1.yoohoo.workers.dev'') = 15010"
    unfolding h b
    by (simp add: Let_def fetchFromWorker_def flakyNetwork_def defaultConfig_def responseOk_def
        okPayload_def healthOf_update healthOf_update_other healthOf_runTimers
        healthOf_newController onFailure_def onSuccess_def initialHealth_def)
  have h3: "successCount (healthOf (ctl (snd ?res)) ''https://proxy5.yoohoo.workers.dev'') = 1"
    unfolding h b
    by (simp add: Let_def fetchFromWorker_def flakyNetwork_def defaultConfig_def responseOk_def
        okPayload_def healthOf_update healthOf_update_other healthOf_runTimers
        healthOf_newController onFailure_def onSuccess_def initialHealth_def)
  have m: "0 \<le> maxRetries defaultConfig"
    by (simp add: defaultConfig_def)
  from fetchWithFallback_all_fail [OF deadNetwork_fails m, of defaultWorkers "''/search''"
      "''q=cats''" ?fresh]
  have i: "isl (fst (fetchWithFallback defaultConfig defaultWorkers deadNetwork ''/search''
      ''q=cats'' 0 ?fresh))"
    by simp
  note t2 = endpoint_failures_absorbed [where cfg = defaultConfig and w = defaultWorkers
      and env = deadNetwork and ep = "''/search''" and ps = "''q=cats''"
      and c = "newController defaultWorkers" and now = 0 and n = 0 and u = "''x''" and s = ?fresh
      and rest = "[]" and b = False and rt = 0]
  from t2 i have d: "fst (fetchWithFallback defaultConfig defaultWorkers deadNetwork ''/search''
      ''q=cats'' 0 ?fresh) = Inl AllWorkersFailed"
    by blast
  from a b c h1 h2 h3 d show ?thesis
    by (simp only: simp_thms)
qed

text \<open>
  Claim C4, as the code behaves. \<open>performSearch\<close> aborts \<open>this.abortController\<close>, but its
  signal is handed to no fetch and to no delay (\<open>fetchFromWorker\<close> makes a controller of
  its own for the timeout). So whenever and however often the caller aborts, the result,
  the trace, the health state and the clock of a request are those of the run without
  any abort: nothing is cancelled.
\<close>

theorem caller_abort_not_wired:
  "network env' = network env \<Longrightarrow>
     fst (fetchWithFallback cfg w env' ep ps retries s) = fst (fetchWithFallback cfg w env ep ps retries s)
     \<and> trace (snd (fetchWithFallback cfg w env' ep ps retries s))
         = trace (snd (fetchWithFallback cfg w env ep ps retries s))
     \<and> ctl (snd (fetchWithFallback cfg w env' ep ps retries s))
         = ctl (snd (fetchWithFallback cfg w env ep ps retries s))
     \<and> clock (snd (fetchWithFallback cfg w env' ep ps retries s))
         = clock (snd (fetchWithFallback cfg w env ep ps retries s))"
proof -
  assume n: "network env' = network env"
  have rel: "sameButAbort s s"
    by (simp add: sameButAbort_def)
  from fetchWithFallback_abort_blind [OF n rel, of cfg w ep ps retries]
  show ?thesis
    by (simp add: sameButAbort_def)
qed

text \<open>
  The caller aborts while the fetch to the primary worker is in flight: the failure of
  the primary is recorded all the same, the sweep goes on, and the third worker's payload
  is returned.
\<close>

theorem caller_abort_not_wired_witness:
  "abortDuringFetch abortingCaller 0
   \<and> fst (fetchWithFallback defaultConfig defaultWorkers abortingCaller ''/search'' ''q=cats'' 0
            (startRequest (newController defaultWorkers) 0)) = Inr okPayload
   \<and> trace (snd (fetchWithFallback defaultConfig defaultWorkers abortingCaller ''/search''
            ''q=cats'' 0 (startRequest (newController defaultWorkers) 0)))
       = [Attempted ''https://proxy.yoohoo.workers.dev'' (Inl TypeError),
          Recorded ''https://proxy.yoohoo.workers.dev'' False,
          Attempted ''https://proxy1.yoohoo.workers.dev'' (Inl TypeError),
          Recorded ''https://proxy1.yoohoo.workers.dev'' False,
          Attempted ''https://proxy2.yoohoo.workers.dev'' (Inr okPayload),
          Recorded ''https://proxy2.yoohoo.workers.dev'' True]"
proof -
  let ?fresh = "startRequest (newController defaultWorkers) 0"
  have h: "abortDuringFetch abortingCaller 0"
    by (simp add: abortingCaller_def)
  note ev = fetchWithFallback_answered_trace [OF thirdAnswers_sweepAnswer,
      of "newController defaultWorkers" 0]
  note t = caller_abort_not_wired [OF abortingCaller_network, where cfg = defaultConfig
      and w = defaultWorkers and ep = "''/search''" and ps = "''q=cats''" and retries = 0
      and s = ?fresh]
  from t ev have a: "fst (fetchWithFallback defaultConfig defaultWorkers abortingCaller ''/search''
      ''q=cats'' 0 ?fresh) = Inr okPayload"
    by simp
  from t ev have b: "trace (snd (fetchWithFallback defaultConfig defaultWorkers abortingCaller
      ''/search'' ''q=cats'' 0 ?fresh))
      = sweepTrace defaultConfig thirdAnswers ''/search'' ''q=cats'' (allWorkers defaultWorkers) 0"
    by simp
  show ?thesis
    using h a b by (simp add: thirdAnswers_sweepTrace)
qed

end
